theory Spec2Isabelle
  imports Complex_Main "HOL-Library.Word" "HOL-Library.AList"
begin

text \<open>
  A model of the client of the agent lab: the API service (\<open>ApiService\<close>, the TypeScript
  source in \<open>src/README.md\<close>), the application component with its live update channel
  (\<open>App\<close>, in \<open>src/unnamed/part_001\<close>), the creation form
  (\<open>src/src/components/CreateAgentForm.tsx\<close>), and the requests that the details view
  (\<open>src/unnamed/part_000\<close>) and the agent list (\<open>src/unnamed/part_004\<close>) issue
  themselves. An asynchronous function is modelled by what its promise settles to: the
  value, or the error it is rejected with.
\<close>

section \<open>JavaScript values\<close>

text \<open>
  A JavaScript string is a sequence of UTF-16 code units. String literals of the
  source are ASCII and are written \<open>ascii ''...''\<close>.
\<close>

type_synonym code_unit = "16 word"
type_synonym js_string = "code_unit list"

definition ascii :: "string \<Rightarrow> js_string" where
  "ascii s = map (\<lambda>c. of_nat (of_char c)) s"

text \<open>
  The values that \<open>JSON.parse\<close> and object literals produce, with \<open>undefined\<close> for a
  missing property. An object is the list of its own properties in insertion order, each
  key once. Numbers are the finite ones, as rationals (every finite double is one).
\<close>

datatype jsval =
    JUndefined
  | JNull
  | JBool bool
  | JNum rat
  | JStr js_string
  | JArr "jsval list"
  | JObj "(js_string \<times> jsval) list"

text \<open>
  What a \<open>throw\<close> or a rejected promise carries. \<open>Error m\<close> is \<open>new Error(m)\<close>: the
  argument is kept as it is passed (the constructor's conversion of a non-string
  argument to a string is not modelled).
\<close>

datatype js_error =
    Error jsval
  | TypeError
  | SyntaxError
  | URIError
  | InvalidStateError

definition and_then :: "js_error + 'a \<Rightarrow> ('a \<Rightarrow> js_error + 'b) \<Rightarrow> js_error + 'b" where
  "and_then r f = (case r of Inl e \<Rightarrow> Inl e | Inr v \<Rightarrow> f v)"

text \<open>Truthiness, as \<open>if (v)\<close>, \<open>!v\<close> and \<open>||\<close> test it.\<close>

fun truthy :: "jsval \<Rightarrow> bool" where
  "truthy JUndefined = False"
| "truthy JNull = False"
| "truthy (JBool b) = b"
| "truthy (JNum n) = (n \<noteq> 0)"
| "truthy (JStr s) = (s \<noteq> [])"
| "truthy (JArr xs) = True"
| "truthy (JObj kvs) = True"

text \<open>\<open>v || w\<close>, and \<open>v || e\<close> for an expression \<open>e\<close> whose evaluation can throw: it is
  evaluated only when \<open>v\<close> is falsy.\<close>

definition or_else :: "jsval \<Rightarrow> jsval \<Rightarrow> jsval" where
  "or_else v w = (if truthy v then v else w)"

definition or_else_lazy :: "jsval \<Rightarrow> js_error + jsval \<Rightarrow> js_error + jsval" where
  "or_else_lazy v e = (if truthy v then Inr v else e)"

text \<open>
  The property read \<open>v.k\<close>, for the property names this program reads (\<open>length\<close> and
  names that no built-in prototype defines): reading from \<open>undefined\<close> or \<open>null\<close> throws
  a TypeError, a missing property reads as \<open>undefined\<close>.
\<close>

fun property :: "jsval \<Rightarrow> js_string \<Rightarrow> js_error + jsval" where
  "property JUndefined k = Inl TypeError"
| "property JNull k = Inl TypeError"
| "property (JObj kvs) k = Inr (case map_of kvs k of Some v \<Rightarrow> v | None \<Rightarrow> JUndefined)"
| "property (JArr xs) k = Inr (if k = ascii ''length'' then JNum (of_nat (length xs)) else JUndefined)"
| "property (JStr s) k = Inr (if k = ascii ''length'' then JNum (of_nat (length s)) else JUndefined)"
| "property (JBool b) k = Inr JUndefined"
| "property (JNum n) k = Inr JUndefined"

subsection \<open>Numbers as decimal strings\<close>

text \<open>
  \<open>String(n)\<close> and \<open>${n}\<close> for an integer \<open>n\<close>. This is what JavaScript prints for the
  integers that a number holds exactly, those of magnitude up to \<open>2^53\<close>; above that a
  number is printed with its shortest digits that read back as the same number.
\<close>

definition digit :: "nat \<Rightarrow> code_unit" where
  "digit d = of_nat (48 + d)"

function decimal :: "nat \<Rightarrow> js_string" where
  "decimal n = (if n < 10 then [digit n] else decimal (n div 10) @ [digit (n mod 10)])"
  by pat_completeness auto
termination
  by (relation "measure id") auto

definition String_number :: "int \<Rightarrow> js_string" where
  "String_number i = (if i < 0 then ascii ''-'' @ decimal (nat (- i)) else decimal (nat i))"

subsection \<open>encodeURIComponent\<close>

text \<open>
  ECMAScript's \<open>Encode\<close> with the unreserved set of \<open>encodeURIComponent\<close>: an
  unreserved code unit is copied, any other code point is written as the percent-escaped
  octets of its UTF-8 encoding, and an unpaired surrogate throws a URIError.
\<close>

definition uriUnreserved :: "code_unit \<Rightarrow> bool" where
  "uriUnreserved c =
     ((0x41 \<le> c \<and> c \<le> 0x5A) \<or> (0x61 \<le> c \<and> c \<le> 0x7A) \<or> (0x30 \<le> c \<and> c \<le> 0x39)
      \<or> c \<in> set (ascii ''-_.!~*'' @ [0x27] @ ascii ''()''))"

definition leadSurrogate :: "code_unit \<Rightarrow> bool" where
  "leadSurrogate c = (0xD800 \<le> c \<and> c \<le> 0xDBFF)"

definition trailSurrogate :: "code_unit \<Rightarrow> bool" where
  "trailSurrogate c = (0xDC00 \<le> c \<and> c \<le> 0xDFFF)"

definition utf8 :: "nat \<Rightarrow> nat list" where
  "utf8 cp =
     (if cp < 0x80 then [cp]
      else if cp < 0x800 then [0xC0 + cp div 64, 0x80 + cp mod 64]
      else if cp < 0x10000 then [0xE0 + cp div 4096, 0x80 + cp div 64 mod 64, 0x80 + cp mod 64]
      else [0xF0 + cp div 262144, 0x80 + cp div 4096 mod 64, 0x80 + cp div 64 mod 64,
            0x80 + cp mod 64])"

definition hexDigit :: "nat \<Rightarrow> code_unit" where
  "hexDigit d = (if d < 10 then of_nat (48 + d) else of_nat (55 + d))"

definition percent :: "nat list \<Rightarrow> js_string" where
  "percent octets = concat (map (\<lambda>b. [0x25, hexDigit (b div 16), hexDigit (b mod 16)]) octets)"

fun encodeURIComponent :: "js_string \<Rightarrow> js_error + js_string" where
  "encodeURIComponent [] = Inr []"
| "encodeURIComponent [c] =
     (if uriUnreserved c then Inr [c]
      else if leadSurrogate c \<or> trailSurrogate c then Inl URIError
      else Inr (percent (utf8 (unat c))))"
| "encodeURIComponent (c # d # ds) =
     (if uriUnreserved c then
        and_then (encodeURIComponent (d # ds)) (\<lambda>r. Inr (c # r))
      else if trailSurrogate c then Inl URIError
      else if leadSurrogate c then
        (if trailSurrogate d then
           and_then (encodeURIComponent ds)
             (\<lambda>r. Inr (percent (utf8 ((unat c - 0xD800) * 0x400 + (unat d - 0xDC00) + 0x10000)) @ r))
         else Inl URIError)
      else and_then (encodeURIComponent (d # ds)) (\<lambda>r. Inr (percent (utf8 (unat c)) @ r)))"

section \<open>The API service\<close>

text \<open>
  The class \<open>ApiService\<close>. The network is a parameter: \<open>fetch\<close> maps the request to its outcome, a rejection
  (no connection) or a response. A response has its HTTP status, what \<open>response.json()\<close>
  settles to, and what \<open>response.text()\<close> settles to when it is called after \<open>json()\<close>
  has failed.
\<close>

record http_request =
  url :: js_string
  method' :: "js_string option"
  headers :: "(js_string \<times> js_string) list"
  body :: "jsval option"

datatype response =
  Response (resp_status: nat) (resp_json: "js_error + jsval") (resp_text: "js_error + js_string")

definition ok :: "response \<Rightarrow> bool" where
  "ok r = (200 \<le> resp_status r \<and> resp_status r \<le> 299)"

datatype fetch_outcome = Rejected js_error | Responded response

type_synonym fetch = "http_request \<Rightarrow> fetch_outcome"

record ApiService =
  apiUrl :: js_string
  apiKey :: "js_string option"

text \<open>The \<open>options\<close> argument of \<open>request\<close> (a \<open>RequestInit\<close>); the body is the value
  that the caller passes through \<open>JSON.stringify\<close>. The actions pass \<open>{method: 'POST'}\<close>,
  the lookups nothing.\<close>

record RequestInit =
  init_method :: "js_string option"
  init_headers :: "(js_string \<times> js_string) list"
  init_body :: "jsval option"

definition no_options :: RequestInit where
  "no_options = \<lparr>init_method = None, init_headers = [], init_body = None\<rparr>"

definition post :: RequestInit where
  "post = \<lparr>init_method = Some (ascii ''POST''), init_headers = [], init_body = None\<rparr>"

text \<open>
  \<open>ApiService.request\<close>: the headers are the content type, then the headers of the
  options, then the API key if there is one; a body that is not JSON is wrapped into an
  envelope with its text; a response that is not OK throws an error with the message of
  the body; everything thrown is logged and thrown again.
\<close>

definition request_headers :: "ApiService \<Rightarrow> RequestInit \<Rightarrow> (js_string \<times> js_string) list" where
  "request_headers api options =
     (let headers = fold (\<lambda>(k, v). AList.update k v) (init_headers options)
                      [(ascii ''Content-Type'', ascii ''application/json'')]
      in case apiKey api of
           None \<Rightarrow> headers
         | Some key \<Rightarrow> if key \<noteq> [] then AList.update (ascii ''X-API-Key'') key headers else headers)"

definition request :: "ApiService \<Rightarrow> fetch \<Rightarrow> js_string \<Rightarrow> RequestInit \<Rightarrow> js_error + jsval" where
  "request api fetch endpoint options =
     (case fetch \<lparr>url = apiUrl api @ endpoint, method' = init_method options,
                  headers = request_headers api options, body = init_body options\<rparr> of
        Rejected e \<Rightarrow> Inl e
      | Responded response \<Rightarrow>
          and_then
            (case resp_json response of
               Inr data \<Rightarrow> Inr data
             | Inl parseError \<Rightarrow>
                 and_then (resp_text response)
                   (\<lambda>t. Inr (JObj [(ascii ''status'',
                                     JStr (if ok response then ascii ''success'' else ascii ''error'')),
                                    (ascii ''data'', JObj [(ascii ''rawText'', JStr t)]),
                                    (ascii ''message'', JStr t)])))
            (\<lambda>data.
               if \<not> ok response then
                 and_then (property data (ascii ''message''))
                   (\<lambda>m. Inl (Error (or_else m
                      (JStr (ascii ''An error occurred while making the request'')))))
               else Inr data))"


subsection \<open>Listing agents\<close>

datatype AgentStatus = PENDING | RUNNING | COMPLETED | FAILED | PAUSED | STOPPED | IDLE

fun AgentStatus_value :: "AgentStatus \<Rightarrow> js_string" where
  "AgentStatus_value PENDING = ascii ''PENDING''"
| "AgentStatus_value RUNNING = ascii ''RUNNING''"
| "AgentStatus_value COMPLETED = ascii ''COMPLETED''"
| "AgentStatus_value FAILED = ascii ''FAILED''"
| "AgentStatus_value PAUSED = ascii ''PAUSED''"
| "AgentStatus_value STOPPED = ascii ''STOPPED''"
| "AgentStatus_value IDLE = ascii ''IDLE''"

datatype sort_order = asc | desc

text \<open>
  The \<open>params\<close> argument of \<open>getAgents\<close> is an object of optional properties. It is the
  list of the properties it has, in insertion order (the order of \<open>Object.entries\<close>), each
  with its value or \<open>None\<close> for a property that is present with the value \<open>undefined\<close>.
  \<open>limit\<close> and \<open>offset\<close> are integers.
\<close>

datatype param =
    Limit "int option"
  | Offset "int option"
  | Status "AgentStatus option"
  | Sort "js_string option"
  | Order "sort_order option"

fun param_key :: "param \<Rightarrow> js_string" where
  "param_key (Limit v) = ascii ''limit''"
| "param_key (Offset v) = ascii ''offset''"
| "param_key (Status v) = ascii ''status''"
| "param_key (Sort v) = ascii ''sort''"
| "param_key (Order v) = ascii ''order''"

text \<open>\<open>String(value)\<close> of a property's value, \<open>None\<close> when the value is \<open>undefined\<close>.
  (The values of \<open>status\<close> and \<open>order\<close> are the strings of their types.)\<close>

fun param_String :: "param \<Rightarrow> js_string option" where
  "param_String (Limit v) = map_option String_number v"
| "param_String (Offset v) = map_option String_number v"
| "param_String (Status v) = map_option AgentStatus_value v"
| "param_String (Sort v) = v"
| "param_String (Order v) = map_option (\<lambda>ord. case ord of asc \<Rightarrow> ascii ''asc'' | desc \<Rightarrow> ascii ''desc'') v"

text \<open>\<open>Array.prototype.map\<close> with a callback that may throw: the first throw ends it.\<close>

fun map_throwing :: "('a \<Rightarrow> js_error + 'b) \<Rightarrow> 'a list \<Rightarrow> js_error + 'b list" where
  "map_throwing f [] = Inr []"
| "map_throwing f (x # xs) =
     and_then (f x) (\<lambda>y. and_then (map_throwing f xs) (\<lambda>ys. Inr (y # ys)))"

fun join :: "js_string \<Rightarrow> js_string list \<Rightarrow> js_string" where
  "join sep [] = []"
| "join sep [x] = x"
| "join sep (x # y # ys) = x @ sep @ join sep (y # ys)"

text \<open>The entries whose value is not \<open>undefined\<close>, each with its key and the string of
  its value.\<close>

definition defined_entries :: "param list \<Rightarrow> (js_string \<times> js_string) list" where
  "defined_entries entries =
     concat (map (\<lambda>p. case param_String p of
                         None \<Rightarrow> []
                       | Some v \<Rightarrow> [(param_key p, v)])
               entries)"

text \<open>The query string that \<open>getAgents\<close> builds from \<open>params\<close>, before its \<open>try\<close> block.\<close>

definition queryParams :: "param list option \<Rightarrow> js_error + js_string" where
  "queryParams params =
     (case params of
        None \<Rightarrow> Inr []
      | Some entries \<Rightarrow>
          and_then
            (map_throwing
               (\<lambda>(key, v). and_then (encodeURIComponent v) (\<lambda>encoded. Inr (key @ ascii ''='' @ encoded)))
               (defined_entries entries))
            (\<lambda>parts. Inr (join (ascii ''&'') parts)))"

text \<open>\<open>params?.limit\<close> and \<open>params?.offset\<close>.\<close>

definition params_limit :: "param list option \<Rightarrow> jsval" where
  "params_limit params =
     (case params of
        None \<Rightarrow> JUndefined
      | Some entries \<Rightarrow>
          (case List.find (\<lambda>p. param_key p = ascii ''limit'') entries of
             Some (Limit (Some n)) \<Rightarrow> JNum (of_int n)
           | _ \<Rightarrow> JUndefined))"

definition params_offset :: "param list option \<Rightarrow> jsval" where
  "params_offset params =
     (case params of
        None \<Rightarrow> JUndefined
      | Some entries \<Rightarrow>
          (case List.find (\<lambda>p. param_key p = ascii ''offset'') entries of
             Some (Offset (Some n)) \<Rightarrow> JNum (of_int n)
           | _ \<Rightarrow> JUndefined))"

text \<open>The empty result that \<open>getAgents\<close> returns for a response without data and from
  its \<open>catch\<close> block.\<close>

definition empty_agents :: "param list option \<Rightarrow> jsval" where
  "empty_agents params =
     JObj [(ascii ''agents'', JArr []),
           (ascii ''total'', JNum 0),
           (ascii ''limit'', or_else (params_limit params) (JNum 10)),
           (ascii ''offset'', or_else (params_offset params) (JNum 0))]"

text \<open>The \<open>try\<close> block of \<open>getAgents\<close>, for the query string built before it.\<close>

definition getAgents_try :: "ApiService \<Rightarrow> fetch \<Rightarrow> param list option \<Rightarrow> js_string \<Rightarrow> js_error + jsval" where
  "getAgents_try api fetch params query =
     and_then (request api fetch (ascii ''/agents'' @ query) no_options) (\<lambda>response.
     and_then (property response (ascii ''data'')) (\<lambda>data.
       if \<not> truthy data then Inr (empty_agents params)
       else
         and_then (property data (ascii ''agents'')) (\<lambda>agents.
         and_then (or_else_lazy agents (property data (ascii ''items''))) (\<lambda>agents_or_items.
         let agentsList = or_else agents_or_items (JArr []) in
         and_then (property data (ascii ''total'')) (\<lambda>total.
         and_then (or_else_lazy total (property agentsList (ascii ''length''))) (\<lambda>total'.
         and_then (property data (ascii ''limit'')) (\<lambda>limit.
         and_then (property data (ascii ''offset'')) (\<lambda>offset.
           Inr (JObj [(ascii ''agents'', agentsList),
                      (ascii ''total'', total'),
                      (ascii ''limit'', or_else (or_else limit (params_limit params)) (JNum 10)),
                      (ascii ''offset'', or_else (or_else offset (params_offset params)) (JNum 0))])))))))))"

definition getAgents :: "ApiService \<Rightarrow> fetch \<Rightarrow> param list option \<Rightarrow> js_error + jsval" where
  "getAgents api fetch params =
     and_then (queryParams params) (\<lambda>queryParams.
       let query = (if queryParams \<noteq> [] then ascii ''?'' @ queryParams else []) in
       case getAgents_try api fetch params query of
         Inr result \<Rightarrow> Inr result
       | Inl error \<Rightarrow> Inr (empty_agents params))"

subsection \<open>Single agents, actions and results\<close>

text \<open>\<open>response.data.agent\<close> and \<open>response.data.results\<close>.\<close>

definition data_field :: "js_string \<Rightarrow> jsval \<Rightarrow> js_error + jsval" where
  "data_field k response = and_then (property response (ascii ''data'')) (\<lambda>data. property data k)"

definition getAgentById :: "ApiService \<Rightarrow> fetch \<Rightarrow> js_string \<Rightarrow> js_error + jsval" where
  "getAgentById api fetch agentId =
     and_then (request api fetch (ascii ''/agents/'' @ agentId) no_options) (data_field (ascii ''agent''))"

definition startAgent :: "ApiService \<Rightarrow> fetch \<Rightarrow> js_string \<Rightarrow> js_error + jsval" where
  "startAgent api fetch agentId =
     and_then (request api fetch (ascii ''/agents/'' @ agentId @ ascii ''/start'') post)
       (data_field (ascii ''agent''))"

definition stopAgent :: "ApiService \<Rightarrow> fetch \<Rightarrow> js_string \<Rightarrow> js_error + jsval" where
  "stopAgent api fetch agentId =
     and_then (request api fetch (ascii ''/agents/'' @ agentId @ ascii ''/stop'') post)
       (data_field (ascii ''agent''))"

definition pauseAgent :: "ApiService \<Rightarrow> fetch \<Rightarrow> js_string \<Rightarrow> js_error + jsval" where
  "pauseAgent api fetch agentId =
     and_then (request api fetch (ascii ''/agents/'' @ agentId @ ascii ''/pause'') post)
       (data_field (ascii ''agent''))"

definition resumeAgent :: "ApiService \<Rightarrow> fetch \<Rightarrow> js_string \<Rightarrow> js_error + jsval" where
  "resumeAgent api fetch agentId =
     and_then (request api fetch (ascii ''/agents/'' @ agentId @ ascii ''/resume'') post)
       (data_field (ascii ''agent''))"

definition getAgentResults :: "ApiService \<Rightarrow> fetch \<Rightarrow> js_string \<Rightarrow> js_error + jsval" where
  "getAgentResults api fetch agentId =
     and_then (request api fetch (ascii ''/agents/'' @ agentId @ ascii ''/results'') no_options)
       (data_field (ascii ''results''))"


subsection \<open>The same requests, as the views issue them\<close>

text \<open>
  The agent details view and the agent list do not go through the API service: they call
  \<open>fetch\<close> themselves, with the API URL read from local storage (\<open>storedApiUrl\<close>,
  \<open>None\<close> when the key is not stored).

  \<open>fetchResults\<close> of the details view (\<open>AgentDetails\<close>): its \<open>try\<close> block, then the
  function with its \<open>catch\<close> and \<open>finally\<close>. \<open>shownError\<close> is the error whose message
  the view shows.
\<close>

record AgentDetails =
  agentResults :: jsval
  shownError :: "js_error option"
  isLoadingResults :: bool

definition fetchResults_try :: "fetch \<Rightarrow> js_string option \<Rightarrow> js_string \<Rightarrow> AgentDetails \<Rightarrow> js_error + AgentDetails" where
  "fetchResults_try fetch storedApiUrl agentId s =
     (case storedApiUrl of
        None \<Rightarrow> Inl (Error (JStr (ascii ''API URL not found'')))
      | Some url' \<Rightarrow>
          if url' = [] then Inl (Error (JStr (ascii ''API URL not found'')))
          else
            case fetch \<lparr>url = url' @ ascii ''/agents/'' @ agentId @ ascii ''/results'',
                         method' = None,
                         headers = [(ascii ''X-API-Key'', ascii ''development-key'')],
                         body = None\<rparr> of
              Rejected e \<Rightarrow> Inl e
            | Responded response \<Rightarrow>
                if \<not> ok response then
                  (if resp_status response = 404 then Inr (s\<lparr>agentResults := JNull\<rparr>)
                   else Inl (Error (JStr (ascii ''Failed to fetch results''))))
                else
                  and_then (resp_json response) (\<lambda>data.
                  and_then (property data (ascii ''status'')) (\<lambda>st.
                    if st \<noteq> JStr (ascii ''success'') then
                      and_then (property data (ascii ''message''))
                        (\<lambda>m. Inl (Error (or_else m (JStr (ascii ''Failed to fetch results'')))))
                    else
                      and_then (data_field (ascii ''results'') data)
                        (\<lambda>results. Inr (s\<lparr>agentResults := results\<rparr>)))))"

definition fetchResults :: "fetch \<Rightarrow> js_string option \<Rightarrow> js_string \<Rightarrow> AgentDetails \<Rightarrow> AgentDetails" where
  "fetchResults fetch storedApiUrl agentId s =
     (let s1 = s\<lparr>isLoadingResults := True\<rparr>;
          s2 = (case fetchResults_try fetch storedApiUrl agentId s1 of
                  Inr s' \<Rightarrow> s'
                | Inl err \<Rightarrow> s1\<lparr>shownError := Some err\<rparr>)
      in s2\<lparr>isLoadingResults := False\<rparr>)"

text \<open>The \<open>try\<close> block of \<open>handleAgentAction\<close> of the agent list (\<open>AgentList\<close>).\<close>

datatype Action = start | stop | pause | resume

fun Action_value :: "Action \<Rightarrow> js_string" where
  "Action_value start = ascii ''start''"
| "Action_value stop = ascii ''stop''"
| "Action_value pause = ascii ''pause''"
| "Action_value resume = ascii ''resume''"

definition AgentList_handleAgentAction_try :: "fetch \<Rightarrow> js_string option \<Rightarrow> js_string \<Rightarrow> Action \<Rightarrow> js_error + unit" where
  "AgentList_handleAgentAction_try fetch storedApiUrl agentId action =
     (case storedApiUrl of
        None \<Rightarrow> Inl (Error (JStr (ascii ''API URL not found'')))
      | Some url' \<Rightarrow>
          if url' = [] then Inl (Error (JStr (ascii ''API URL not found'')))
          else
            case fetch \<lparr>url = url' @ ascii ''/agents/'' @ agentId @ ascii ''/'' @ Action_value action,
                         method' = Some (ascii ''POST''),
                         headers = [(ascii ''Content-Type'', ascii ''application/json''),
                                    (ascii ''X-API-Key'', ascii ''development-key'')],
                         body = Some (JObj [(ascii ''action'', JStr (Action_value action))])\<rparr> of
              Rejected e \<Rightarrow> Inl e
            | Responded response \<Rightarrow>
                if \<not> ok response then
                  Inl (Error (JStr (ascii ''Failed to '' @ Action_value action
                                     @ ascii '' agent. Server responded with ''
                                     @ decimal (resp_status response))))
                else
                  and_then (resp_json response) (\<lambda>data.
                  and_then (property data (ascii ''status'')) (\<lambda>st.
                    if st \<noteq> JStr (ascii ''success'') then
                      and_then (property data (ascii ''message''))
                        (\<lambda>m. Inl (Error (or_else m
                           (JStr (ascii ''Failed to '' @ Action_value action @ ascii '' agent'')))))
                    else Inr ())))"

section \<open>The application\<close>

subsection \<open>Agents\<close>

text \<open>The types \<open>AgentStatus\<close> (above), \<open>BrowserSize\<close> and \<open>Agent\<close> of the application
  (declared at the end of \<open>src/src/components/Toolbar.tsx\<close>).\<close>

datatype BrowserSize = mobile | tablet | pc

text \<open>
  The seven configuration fields are those that \<open>createAgent\<close> takes, that the creation
  form holds and that an agent has. An agent adds its id, its status, its creation time
  and the step counter that a status update writes. \<open>status\<close> and \<open>currentStep\<close> hold
  what was received: the status update copies them from the parsed message unchecked.
\<close>

record AgentConfig =
  instruction :: js_string
  model :: js_string
  maxSteps :: int
  headless :: bool
  useVision :: bool
  generateGif :: bool
  browserSize :: BrowserSize

record Agent = AgentConfig +
  id' :: js_string
  status :: jsval
  createdAt :: js_string
  currentStep :: jsval

text \<open>
  The application component uses the API service under its declared types: each call
  settles to an agent or is rejected. What the calls settle to is a parameter.
\<close>

record TypedApi =
  createAgent :: "AgentConfig \<Rightarrow> js_error + Agent"
  agentAction :: "Action \<Rightarrow> js_string \<Rightarrow> js_error + Agent"

datatype api_call = CreateAgent AgentConfig | AgentAction Action js_string

subsection \<open>State\<close>

datatype ReadyState = CONNECTING | OPEN | CLOSING | CLOSED

text \<open>A socket: its state and the messages handed to \<open>send\<close> (each the value that is
  passed through \<open>JSON.stringify\<close>), in order.\<close>

record WebSocket =
  readyState :: ReadyState
  sent :: "jsval list"

text \<open>\<open>send\<close> throws while the socket is connecting, transmits while it is open and
  drops the message once the socket is closing or closed.\<close>

definition send :: "WebSocket \<Rightarrow> jsval \<Rightarrow> js_error + WebSocket" where
  "send ws msg =
     (case readyState ws of
        CONNECTING \<Rightarrow> Inl InvalidStateError
      | OPEN \<Rightarrow> Inr (ws\<lparr>sent := sent ws @ [msg]\<rparr>)
      | CLOSING \<Rightarrow> Inr ws
      | CLOSED \<Rightarrow> Inr ws)"

text \<open>What a pending timeout runs when it fires.\<close>

datatype callback =
    SetupWebSocket
  | ResetAttemptsThenSetupWebSocket
  | ConnectionTimeout

record timer =
  handle :: nat
  delay :: rat
  run :: callback

text \<open>
  The module-level variables of the connection, the state of the component, and the
  part of the environment that the component acts on: the pending timeouts and
  intervals of the window, the current route, the calls made to the API service and the
  custom events dispatched on the window (each with its type and its detail).
\<close>

record App =
  socket :: "WebSocket option"
  reconnectAttempts :: nat
  reconnectTimeout :: "nat option"
  isIntentionalClose :: bool
  heartbeatInterval :: "nat option"
  agents :: "Agent list"
  isWebSocketConnected :: bool
  isLoading :: bool
  error :: "js_string option"
  infoMessage :: "js_string option"
  timeouts :: "timer list"
  intervals :: "nat list"
  next_handle :: nat
  location :: js_string
  api_calls :: "api_call list"
  dispatched :: "(jsval \<times> jsval) list"

definition MAX_RECONNECT_ATTEMPTS :: nat where
  "MAX_RECONNECT_ATTEMPTS = 10"

definition RECONNECT_DELAY :: rat where
  "RECONNECT_DELAY = 2000"

text \<open>\<open>window.setTimeout\<close> returns a fresh handle; \<open>clearTimeout\<close> and
  \<open>clearInterval\<close> cancel by handle. A variable that holds a handle or \<open>null\<close> is
  tested by its truthiness: the handle 0 counts as none.\<close>

definition setTimeout :: "callback \<Rightarrow> rat \<Rightarrow> App \<Rightarrow> nat \<times> App" where
  "setTimeout f ms s =
     (next_handle s,
      s\<lparr>timeouts := timeouts s @ [\<lparr>handle = next_handle s, delay = ms, run = f\<rparr>],
        next_handle := next_handle s + 1\<rparr>)"

definition clearTimeout :: "nat \<Rightarrow> App \<Rightarrow> App" where
  "clearTimeout h s = s\<lparr>timeouts := filter (\<lambda>t. handle t \<noteq> h) (timeouts s)\<rparr>"

definition clearInterval :: "nat \<Rightarrow> App \<Rightarrow> App" where
  "clearInterval h s = s\<lparr>intervals := removeAll h (intervals s)\<rparr>"


subsection \<open>The live update channel\<close>

text \<open>
  \<open>reconnectWithBackoff\<close> of \<open>App\<close>. The delay is the number passed to \<open>setTimeout\<close>; the powers
  of \<open>1.5\<close> that occur and their products with the base delay are exact in double
  arithmetic.
\<close>

definition reconnectWithBackoff :: "App \<Rightarrow> App" where
  "reconnectWithBackoff s =
     (if reconnectAttempts s < MAX_RECONNECT_ATTEMPTS then
        let s1 = s\<lparr>reconnectAttempts := reconnectAttempts s + 1\<rparr>;
            backoffDelay = RECONNECT_DELAY * min ((3 / 2) ^ (reconnectAttempts s1 - 1)) 15;
            s2 = (case reconnectTimeout s1 of
                    Some h \<Rightarrow> if h \<noteq> 0 then clearTimeout h s1 else s1
                  | None \<Rightarrow> s1);
            (h, s3) = setTimeout SetupWebSocket backoffDelay s2
        in s3\<lparr>reconnectTimeout := Some h,
               infoMessage := Some (ascii ''Reconnecting to real-time updates (attempt ''
                                    @ decimal (reconnectAttempts s3) @ ascii ''/''
                                    @ decimal MAX_RECONNECT_ATTEMPTS @ ascii '')...'')\<rparr>
      else
        let (h, s1) = setTimeout ResetAttemptsThenSetupWebSocket 60000 s
        in s1\<lparr>reconnectTimeout := Some h,
               infoMessage := Some (ascii ''Connection lost. Still trying to reconnect...'')\<rparr>)"

record CloseEvent =
  code :: nat
  reason :: js_string
  wasClean :: bool

text \<open>\<open>socket.onclose\<close>; \<open>connectionTimeout\<close> is the handle of the connection timeout
  that was set when the socket was created.\<close>

definition onclose :: "nat \<Rightarrow> CloseEvent \<Rightarrow> App \<Rightarrow> App" where
  "onclose connectionTimeout event s =
     (let s1 = clearTimeout connectionTimeout s;
          s2 = s1\<lparr>isWebSocketConnected := False\<rparr>;
          s3 = (case heartbeatInterval s2 of
                  Some h \<Rightarrow> if h \<noteq> 0 then (clearInterval h s2)\<lparr>heartbeatInterval := None\<rparr>
                            else s2
                | None \<Rightarrow> s2)
      in if \<not> isIntentionalClose s3 \<and> code event \<noteq> 1000 \<and> code event \<noteq> 1001
         then reconnectWithBackoff s3
         else s3)"

text \<open>
  \<open>setupWebSocket\<close>: the pending reconnect and the heartbeat are cancelled, a socket that
  is still open or connecting is closed with the flag set and dropped, and a new socket is
  created with a connection timeout of 5000 ms. \<open>accepted\<close> says whether
  \<open>new WebSocket(wsUrl)\<close> returns the socket (it throws for a URL that is not a WebSocket
  URL); when it throws, the \<open>catch\<close> block reconnects. The handlers that the function
  installs on the socket are the functions \<open>onerror\<close>, \<open>onclose\<close> and \<open>onmessage\<close> here.
\<close>

definition setupWebSocket :: "bool \<Rightarrow> App \<Rightarrow> App" where
  "setupWebSocket accepted s =
     (let s1 = (case reconnectTimeout s of
                  Some h \<Rightarrow> if h \<noteq> 0 then (clearTimeout h s)\<lparr>reconnectTimeout := None\<rparr> else s
                | None \<Rightarrow> s);
          s2 = (case heartbeatInterval s1 of
                  Some h \<Rightarrow> if h \<noteq> 0 then (clearInterval h s1)\<lparr>heartbeatInterval := None\<rparr>
                            else s1
                | None \<Rightarrow> s1);
          s3 = s2\<lparr>isIntentionalClose := False\<rparr>;
          s4 = (case socket s3 of
                  None \<Rightarrow> s3
                | Some ws \<Rightarrow>
                    (if readyState ws = OPEN \<or> readyState ws = CONNECTING
                     then s3\<lparr>isIntentionalClose := True\<rparr>
                     else s3)\<lparr>socket := None\<rparr>)
      in if accepted then
           snd (setTimeout ConnectionTimeout 5000
                  (s4\<lparr>socket := Some \<lparr>readyState = CONNECTING, sent = []\<rparr>\<rparr>))
         else reconnectWithBackoff s4)"




text \<open>The state updater of the status update: the agents of the event's id get the
  event's status and step.\<close>

definition applyStatusUpdate :: "jsval \<Rightarrow> jsval \<Rightarrow> jsval \<Rightarrow> Agent list \<Rightarrow> Agent list" where
  "applyStatusUpdate agentId newStatus newStep prevAgents =
     map (\<lambda>agent. if JStr (id' agent) = agentId
                   then agent\<lparr>status := newStatus, currentStep := newStep\<rparr>
                   else agent)
       prevAgents"

text \<open>
  \<open>socket.onmessage\<close>, for what \<open>JSON.parse(event.data)\<close> gives: the parsed value or
  the error it throws. Every throw of the handler's body is caught and logged there.
\<close>

definition onmessage :: "js_error + jsval \<Rightarrow> App \<Rightarrow> App" where
  "onmessage parsed s =
     (case parsed of
        Inl parseError \<Rightarrow> s
      | Inr data \<Rightarrow>
          (case property data (ascii ''event'') of
             Inl typeError \<Rightarrow> s
           | Inr event \<Rightarrow>
               if event = JStr (ascii ''pong'') then s\<lparr>reconnectAttempts := 0\<rparr>
               else if event = JStr (ascii ''agent-status-update'')
                       \<or> event = JStr (ascii ''agent-log-update'')
                       \<or> event = JStr (ascii ''agent-result-update'')
                       \<or> event = JStr (ascii ''agent-navigation-update'')
                       \<or> event = JStr (ascii ''agent-screenshot-update'') then
                 (let s1 = s\<lparr>dispatched := dispatched s @ [(event, data)]\<rparr>
                  in if event = JStr (ascii ''agent-status-update'') then
                       (case (property data (ascii ''agentId''), property data (ascii ''status''),
                              property data (ascii ''currentStep'')) of
                          (Inr agentId, Inr newStatus, Inr newStep) \<Rightarrow>
                            s1\<lparr>agents := applyStatusUpdate agentId newStatus newStep (agents s1)\<rparr>
                        | _ \<Rightarrow> s1)
                     else s1)
               else s))"

definition subscribeToAgentUpdates :: "js_string \<Rightarrow> App \<Rightarrow> App" where
  "subscribeToAgentUpdates agentId s =
     (case socket s of
        None \<Rightarrow> s
      | Some ws \<Rightarrow>
          if readyState ws = OPEN then
            (case send ws (JObj [(ascii ''event'', JStr (ascii ''subscribe-to-agent'')),
                                 (ascii ''data'', JStr agentId)]) of
               Inr ws' \<Rightarrow> s\<lparr>socket := Some ws'\<rparr>
             | Inl err \<Rightarrow> s)
          else s)"

definition unsubscribeFromAgentUpdates :: "js_string \<Rightarrow> App \<Rightarrow> App" where
  "unsubscribeFromAgentUpdates agentId s =
     (case socket s of
        None \<Rightarrow> s
      | Some ws \<Rightarrow>
          if readyState ws = OPEN then
            (case send ws (JObj [(ascii ''event'', JStr (ascii ''unsubscribe-from-agent'')),
                                 (ascii ''data'', JStr agentId)]) of
               Inr ws' \<Rightarrow> s\<lparr>socket := Some ws'\<rparr>
             | Inl err \<Rightarrow> s)
          else s)"

subsection \<open>The agents of the view\<close>

text \<open>The state updater of \<open>handleCreateAgent\<close>: the created agent replaces the agents
  of its id, or is put first when there is none.\<close>

definition upsert :: "Agent \<Rightarrow> Agent list \<Rightarrow> Agent list" where
  "upsert createdAgent prevAgents =
     (let exists = list_ex (\<lambda>agent. id' agent = id' createdAgent) prevAgents
      in if exists
         then map (\<lambda>agent. if id' agent = id' createdAgent then createdAgent else agent) prevAgents
         else createdAgent # prevAgents)"

text \<open>The state updater of \<open>handleAgentAction\<close>: the updated agent replaces the agents
  of the id that was acted on.\<close>

definition replaceAgent :: "js_string \<Rightarrow> Agent \<Rightarrow> Agent list \<Rightarrow> Agent list" where
  "replaceAgent agentId updatedAgent prevAgents =
     map (\<lambda>agent. if id' agent = agentId then updatedAgent else agent) prevAgents"

text \<open>
  \<open>handleCreateAgent\<close> and \<open>handleAgentAction\<close> of \<open>App\<close>, each from the call to its
  return: the call to the API service is recorded, and what it settles to decides between
  the \<open>try\<close> block and the \<open>catch\<close> block.
\<close>

definition handleCreateAgent :: "TypedApi \<Rightarrow> 'a AgentConfig_scheme \<Rightarrow> App \<Rightarrow> Agent option \<times> App" where
  "handleCreateAgent apiService newAgent s =
     (let s1 = s\<lparr>isLoading := True\<rparr>;
          config = \<lparr>instruction = instruction newAgent, model = model newAgent,
                    maxSteps = maxSteps newAgent, headless = headless newAgent,
                    useVision = useVision newAgent, generateGif = generateGif newAgent,
                    browserSize = browserSize newAgent\<rparr>;
          s2 = s1\<lparr>api_calls := api_calls s1 @ [CreateAgent config]\<rparr>
      in case createAgent apiService config of
           Inr createdAgent \<Rightarrow>
             (let s3 = s2\<lparr>agents := upsert createdAgent (agents s2)\<rparr>;
                  s4 = s3\<lparr>location := ascii ''/agents''\<rparr>;
                  s5 = subscribeToAgentUpdates (id' createdAgent) s4
              in (Some createdAgent, s5\<lparr>isLoading := False\<rparr>))
         | Inl err \<Rightarrow>
             (None, s2\<lparr>error := Some (ascii ''Failed to create agent. Please try again.''),
                        isLoading := False\<rparr>))"

definition handleAgentAction :: "TypedApi \<Rightarrow> js_string \<Rightarrow> Action \<Rightarrow> App \<Rightarrow> Agent option \<times> App" where
  "handleAgentAction apiService agentId action s =
     (let s1 = s\<lparr>isLoading := True\<rparr>;
          s2 = s1\<lparr>api_calls := api_calls s1 @ [AgentAction action agentId]\<rparr>
      in case agentAction apiService action agentId of
           Inr updatedAgent \<Rightarrow>
             (Some updatedAgent,
              s2\<lparr>agents := replaceAgent agentId updatedAgent (agents s2), isLoading := False\<rparr>)
         | Inl err \<Rightarrow>
             (None, s2\<lparr>error := Some (ascii ''Failed to '' @ Action_value action
                                        @ ascii '' agent. Please try again.''),
                        isLoading := False\<rparr>))"

subsection \<open>The creation form\<close>

text \<open>\<open>String.prototype.trim\<close> removes the white space and line terminator code units
  from both ends.\<close>

definition isWhiteSpace :: "code_unit \<Rightarrow> bool" where
  "isWhiteSpace c =
     (c \<in> {0x9, 0xA, 0xB, 0xC, 0xD, 0x20, 0xA0, 0x1680, 0x2028, 0x2029, 0x202F, 0x205F, 0x3000, 0xFEFF}
      \<or> (0x2000 \<le> c \<and> c \<le> 0x200A))"

definition trim :: "js_string \<Rightarrow> js_string" where
  "trim s = rev (dropWhile isWhiteSpace (rev (dropWhile isWhiteSpace s)))"

record CreateAgentForm = AgentConfig +
  selectedPreset :: "js_string option"
  isAdvancedOpen :: bool

definition resetForm :: "CreateAgentForm \<Rightarrow> CreateAgentForm" where
  "resetForm form =
     form\<lparr>instruction := [], model := ascii ''gpt-4o'', maxSteps := 30, headless := False,
          useVision := True, generateGif := True, browserSize := mobile,
          selectedPreset := None\<rparr>"

text \<open>
  \<open>handleSubmit\<close>. \<open>onCreateAgent\<close> is the property of the form, a function of the new
  agent that acts on the rest of the application; \<open>uuid\<close> and \<open>now\<close> are what
  \<open>crypto.randomUUID()\<close> and the formatted current time give.
\<close>

definition handleSubmit :: "(Agent \<Rightarrow> 'w \<Rightarrow> 'w) \<Rightarrow> js_string \<Rightarrow> js_string \<Rightarrow> CreateAgentForm \<times> 'w \<Rightarrow> CreateAgentForm \<times> 'w" where
  "handleSubmit onCreateAgent uuid now fw =
     (let (form, w) = fw in
      if length (trim (instruction form)) < 10 then (form, w)
      else
        let newAgent = \<lparr>instruction = instruction form, model = model form,
                        maxSteps = maxSteps form, headless = headless form,
                        useVision = useVision form, generateGif = generateGif form,
                        browserSize = browserSize form,
                        id' = uuid, status = JStr (AgentStatus_value PENDING), createdAt = now,
                        currentStep = JUndefined\<rparr>
        in (resetForm form, onCreateAgent newAgent w))"

text \<open>The form as the application mounts it: \<open>onCreateAgent\<close> is \<open>handleCreateAgent\<close>.\<close>

definition submitCreateAgentForm :: "TypedApi \<Rightarrow> js_string \<Rightarrow> js_string \<Rightarrow> CreateAgentForm \<times> App \<Rightarrow> CreateAgentForm \<times> App" where
  "submitCreateAgentForm apiService =
     handleSubmit (\<lambda>newAgent s. snd (handleCreateAgent apiService newAgent s))"

subsection \<open>Sequences of upserts\<close>

definition upserts :: "Agent list \<Rightarrow> Agent list \<Rightarrow> Agent list" where
  "upserts us init = foldl (\<lambda>agents u. upsert u agents) init us"

text \<open>The most recent of the upserts \<open>us\<close> with the id \<open>i\<close>.\<close>

definition latest :: "js_string \<Rightarrow> Agent list \<Rightarrow> Agent option" where
  "latest i us = List.find (\<lambda>u. id' u = i) (rev us)"


subsection \<open>States and predicates of the properties\<close>

text \<open>The state in which the application starts: no socket, no timer, no agents.\<close>

definition initial :: App where
  "initial =
     \<lparr>socket = None, reconnectAttempts = 0, reconnectTimeout = None,
      isIntentionalClose = False, heartbeatInterval = None, agents = [],
      isWebSocketConnected = False, isLoading = True, error = None, infoMessage = None,
      timeouts = [], intervals = [], next_handle = 1, location = ascii ''/'',
      api_calls = [], dispatched = []\<rparr>"

text \<open>
  A step from \<open>s\<close> to \<open>s'\<close> schedules a reconnect after \<open>ms\<close> milliseconds: it has set
  a timeout, under the handle that was free in \<open>s\<close>, that is pending in \<open>s'\<close> and
  remembered in \<open>reconnectTimeout\<close>.
\<close>

definition schedules :: "App \<Rightarrow> App \<Rightarrow> rat \<Rightarrow> callback \<Rightarrow> bool" where
  "schedules s s' ms f =
     (reconnectTimeout s' = Some (next_handle s)
      \<and> \<lparr>handle = next_handle s, delay = ms, run = f\<rparr> \<in> set (timeouts s'))"


text \<open>Every pending timeout has a handle that has been given out.\<close>

definition handles_given :: "App \<Rightarrow> bool" where
  "handles_given s = list_all (\<lambda>t. handle t < next_handle s) (timeouts s)"


text \<open>The fields of an agent that a status update leaves as they are.\<close>

definition same_but_status :: "Agent \<Rightarrow> Agent \<Rightarrow> bool" where
  "same_but_status a b =
     (id' b = id' a \<and> instruction b = instruction a \<and> createdAt b = createdAt a
      \<and> model b = model a \<and> maxSteps b = maxSteps a \<and> headless b = headless a
      \<and> useVision b = useVision a \<and> generateGif b = generateGif a
      \<and> browserSize b = browserSize a)"

text \<open>The configuration that the form holds.\<close>

definition form_config :: "CreateAgentForm \<Rightarrow> AgentConfig" where
  "form_config form =
     \<lparr>instruction = instruction form, model = model form, maxSteps = maxSteps form,
      headless = headless form, useVision = useVision form, generateGif = generateGif form,
      browserSize = browserSize form\<rparr>"

text \<open>A result of \<open>getAgents\<close> without agents: the empty list and the total zero.\<close>

definition empty_result :: "jsval \<Rightarrow> bool" where
  "empty_result r =
     (property r (ascii ''agents'') = Inr (JArr []) \<and> property r (ascii ''total'') = Inr (JNum 0))"

subsection \<open>Example inputs\<close>

text \<open>The application with an open socket.\<close>

definition connected :: App where
  "connected = initial\<lparr>socket := Some \<lparr>readyState = OPEN, sent = []\<rparr>,
                        isWebSocketConnected := True, isLoading := False\<rparr>"

definition example_agent :: "string \<Rightarrow> string \<Rightarrow> AgentStatus \<Rightarrow> Agent" where
  "example_agent i task st =
     \<lparr>instruction = ascii task, model = ascii ''gpt-4o'', maxSteps = 30, headless = False,
      useVision = True, generateGif = True, browserSize = mobile,
      id' = ascii i, status = JStr (AgentStatus_value st),
      createdAt = ascii ''2025-03-01 10:00:00'', currentStep = JUndefined\<rparr>"

text \<open>The form filled with the instruction of the end-to-end example.\<close>

definition example_form :: CreateAgentForm where
  "example_form =
     \<lparr>instruction = ascii ''Search GitHub for trending Rust repos and list the top 5,'',
      model = ascii ''gpt-4o'', maxSteps = 30, headless = False, useVision = True,
      generateGif = True, browserSize = mobile, selectedPreset = None, isAdvancedOpen = False\<rparr>"

text \<open>An API service whose \<open>createAgent\<close> settles to the given agent.\<close>

definition creating :: "Agent \<Rightarrow> TypedApi" where
  "creating a = \<lparr>createAgent = (\<lambda>config. Inr a), agentAction = (\<lambda>action agentId. Inl TypeError)\<rparr>"

text \<open>The API service as its constructor makes it when local storage holds no settings.\<close>

definition DEFAULT_API_URL :: js_string where
  "DEFAULT_API_URL = ascii ''http://localhost:3030/api/v1''"

definition DEVELOPMENT_API_KEY :: js_string where
  "DEVELOPMENT_API_KEY = ascii ''development-key''"

definition default_service :: ApiService where
  "default_service = \<lparr>apiUrl = DEFAULT_API_URL, apiKey = Some DEVELOPMENT_API_KEY\<rparr>"

text \<open>A backend that answers every request with the same response: the HTTP status
  and the JSON body.\<close>

definition answering :: "nat \<Rightarrow> jsval \<Rightarrow> fetch" where
  "answering st payload = (\<lambda>req. Responded (Response st (Inr payload) (Inl TypeError)))"

text \<open>An envelope \<open>{status, message, data}\<close>.\<close>

definition envelope :: "string \<Rightarrow> string \<Rightarrow> jsval \<Rightarrow> jsval" where
  "envelope st message d =
     JObj [(ascii ''status'', JStr (ascii st)), (ascii ''message'', JStr (ascii message)),
           (ascii ''data'', d)]"

definition error_envelope :: "string \<Rightarrow> jsval" where
  "error_envelope message =
     JObj [(ascii ''status'', JStr (ascii ''error'')), (ascii ''message'', JStr (ascii message))]"

text \<open>The details view before anything is loaded.\<close>

definition no_details :: AgentDetails where
  "no_details = \<lparr>agentResults = JUndefined, shownError = None, isLoadingResults = False\<rparr>"

text \<open>A status update for the agent \<open>i\<close>.\<close>

definition status_event :: "string \<Rightarrow> AgentStatus \<Rightarrow> rat \<Rightarrow> jsval" where
  "status_event i st step =
     JObj [(ascii ''event'', JStr (ascii ''agent-status-update'')),
           (ascii ''agentId'', JStr (ascii i)),
           (ascii ''status'', JStr (AgentStatus_value st)),
           (ascii ''currentStep'', JNum step)]"


text \<open>An agent as the backend sends it, reduced to its id and status.\<close>

definition agent_json :: "string \<Rightarrow> AgentStatus \<Rightarrow> jsval" where
  "agent_json i st =
     JObj [(ascii ''id'', JStr (ascii i)), (ascii ''status'', JStr (AgentStatus_value st))]"

section \<open>Properties\<close>

subsection \<open>String literals\<close>

lemma of_char_less_256: "(of_char c :: nat) < 256"
proof -
  have "(of_char c :: nat) mod 256 < 256" by simp
  then show ?thesis by (simp only: of_char_mod_256)
qed

lemma code_unit_of_char_eq: "((of_nat (of_char c) :: 16 word) = of_nat (of_char d)) = (c = d)"
proof -
  have "take_bit 16 (of_char x :: nat) = of_char x" for x
  proof -
    have "(of_char x :: nat) < 2 ^ 16" by (rule less_trans [OF of_char_less_256]) simp
    then show ?thesis by (rule take_bit_nat_eq_self)
  qed
  then show ?thesis by (simp add: word_of_nat_eq_iff)
qed

lemma ascii_eq_iff: "(ascii s = ascii t) = (s = t)"
  unfolding ascii_def
  by (rule inj_map_eq_map) (simp add: inj_on_def code_unit_of_char_eq)

lemma and_then_Inr [simp]: "and_then (Inr v) f = f v"
  by (simp add: and_then_def)

lemma and_then_Inl [simp]: "and_then (Inl e) f = Inl e"
  by (simp add: and_then_def)

lemma or_else_lazy_Inr [simp]: "or_else_lazy v (Inr w) = Inr (or_else v w)"
  by (simp add: or_else_lazy_def or_else_def)

subsection \<open>Reconnecting with backoff\<close>

lemma setTimeout_simps:
  "fst (setTimeout f ms s) = next_handle s"
  "timeouts (snd (setTimeout f ms s)) = timeouts s @ [\<lparr>handle = next_handle s, delay = ms, run = f\<rparr>]"
  "next_handle (snd (setTimeout f ms s)) = next_handle s + 1"
  "reconnectAttempts (snd (setTimeout f ms s)) = reconnectAttempts s"
  by (simp_all add: setTimeout_def)

lemma clearTimeout_simps:
  "next_handle (clearTimeout h s) = next_handle s"
  "reconnectAttempts (clearTimeout h s) = reconnectAttempts s"
  "timeouts (clearTimeout h s) = filter (\<lambda>t. handle t \<noteq> h) (timeouts s)"
  by (simp_all add: clearTimeout_def)

lemma reconnect_below_max:
  assumes "reconnectAttempts s < MAX_RECONNECT_ATTEMPTS"
  shows "reconnectAttempts (reconnectWithBackoff s) = reconnectAttempts s + 1"
    and "schedules s (reconnectWithBackoff s)
           (RECONNECT_DELAY * min ((3 / 2) ^ reconnectAttempts s) 15) SetupWebSocket"
  using assms
  by (simp_all add: reconnectWithBackoff_def schedules_def Let_def split_beta setTimeout_simps
      clearTimeout_simps split: option.split)

lemma reconnect_at_max:
  assumes "MAX_RECONNECT_ATTEMPTS \<le> reconnectAttempts s"
  shows "reconnectAttempts (reconnectWithBackoff s) = reconnectAttempts s"
    and "schedules s (reconnectWithBackoff s) 60000 ResetAttemptsThenSetupWebSocket"
  using assms
  by (simp_all add: reconnectWithBackoff_def schedules_def Let_def split_beta setTimeout_simps)


lemma reconnect_schedules: "\<exists>ms f. schedules s (reconnectWithBackoff s) ms f"
proof (cases "reconnectAttempts s < MAX_RECONNECT_ATTEMPTS")
  case True
  from reconnect_below_max(2) [OF True] show ?thesis by blast
next
  case False
  then have "MAX_RECONNECT_ATTEMPTS \<le> reconnectAttempts s" by simp
  from reconnect_at_max(2) [OF this] show ?thesis by blast
qed



text \<open>The delays of the attempts 1 to 10, in milliseconds.\<close>

lemma backoff_delays:
  "map (\<lambda>attempt. RECONNECT_DELAY * min ((3 / 2) ^ (attempt - 1)) 15) [1 ..< 11] =
     [2000, 3000, 4500, 6750, 10125, 30375 / 2, 91125 / 4, 30000, 30000, 30000]"
  by code_simp


lemma handles_given_reconnect:
  assumes "handles_given s"
  shows "handles_given (reconnectWithBackoff s)"
  using assms
  by (auto simp add: handles_given_def reconnectWithBackoff_def Let_def split_beta
      setTimeout_def clearTimeout_def list_all_iff split: option.split)


lemma reconnect_remembered: "reconnectTimeout (reconnectWithBackoff s) = Some (next_handle s)"
  using reconnect_schedules [of s] by (auto simp add: schedules_def)








lemma setupWebSocket_accepted_socket:
  "socket (setupWebSocket True s) = Some \<lparr>readyState = CONNECTING, sent = []\<rparr>"
  by (simp add: setupWebSocket_def Let_def setTimeout_def)


lemma handles_given_clearTimeout:
  "handles_given s \<Longrightarrow> handles_given (clearTimeout h s)"
  by (auto simp add: handles_given_def clearTimeout_def list_all_iff)












subsection \<open>Closing the connection\<close>



text \<open>Closing the socket keeps the handles of the pending timeouts given out.\<close>

lemma handles_given_onclose:
  assumes "handles_given s"
  shows "handles_given (onclose ct event s)"
proof -
  have "handles_given (let s1 = clearTimeout ct s;
               s2 = s1\<lparr>isWebSocketConnected := False\<rparr>
           in case heartbeatInterval s2 of
                Some h \<Rightarrow> if h \<noteq> 0 then (clearInterval h s2)\<lparr>heartbeatInterval := None\<rparr>
                          else s2
              | None \<Rightarrow> s2)"
    using assms
    by (auto simp add: handles_given_def Let_def clearTimeout_def clearInterval_def list_all_iff
        split: option.split)
  then show ?thesis
    by (auto simp add: onclose_def Let_def handles_given_reconnect)
qed



subsection \<open>Subscriptions\<close>

text \<open>
  Claim C5, amended. For every agent id, while the socket is open the subscribe message
  is \<open>{event: "subscribe-to-agent", data: agentId}\<close> and the unsubscribe message is
  \<open>{event: "unsubscribe-from-agent", data: agentId}\<close>, each appended to what the socket
  has sent and nothing else changed; without an open socket nothing is sent.
\<close>

theorem subscription_messages:
  "(socket s = Some ws \<and> readyState ws = OPEN \<longrightarrow>
      subscribeToAgentUpdates agentId s =
        s\<lparr>socket := Some (ws\<lparr>sent := sent ws @
             [JObj [(ascii ''event'', JStr (ascii ''subscribe-to-agent'')),
                    (ascii ''data'', JStr agentId)]]\<rparr>)\<rparr>
      \<and> unsubscribeFromAgentUpdates agentId s =
        s\<lparr>socket := Some (ws\<lparr>sent := sent ws @
             [JObj [(ascii ''event'', JStr (ascii ''unsubscribe-from-agent'')),
                    (ascii ''data'', JStr agentId)]]\<rparr>)\<rparr>)
   \<and> ((socket s = None \<or> (\<exists>ws. socket s = Some ws \<and> readyState ws \<noteq> OPEN)) \<longrightarrow>
      subscribeToAgentUpdates agentId s = s \<and> unsubscribeFromAgentUpdates agentId s = s)"
proof (intro conjI impI)
  assume o: "socket s = Some ws \<and> readyState ws = OPEN"
  then have sending: "send ws msg = Inr (ws\<lparr>sent := sent ws @ [msg]\<rparr>)" for msg
    by (simp add: send_def)
  from o show "subscribeToAgentUpdates agentId s =
        s\<lparr>socket := Some (ws\<lparr>sent := sent ws @
             [JObj [(ascii ''event'', JStr (ascii ''subscribe-to-agent'')),
                    (ascii ''data'', JStr agentId)]]\<rparr>)\<rparr>"
    by (simp add: subscribeToAgentUpdates_def sending)
  from o show "unsubscribeFromAgentUpdates agentId s =
        s\<lparr>socket := Some (ws\<lparr>sent := sent ws @
             [JObj [(ascii ''event'', JStr (ascii ''unsubscribe-from-agent'')),
                    (ascii ''data'', JStr agentId)]]\<rparr>)\<rparr>"
    by (simp add: unsubscribeFromAgentUpdates_def sending)
next
  assume c: "socket s = None \<or> (\<exists>ws. socket s = Some ws \<and> readyState ws \<noteq> OPEN)"
  then show "subscribeToAgentUpdates agentId s = s"
    by (auto simp add: subscribeToAgentUpdates_def)
  from c show "unsubscribeFromAgentUpdates agentId s = s"
    by (auto simp add: unsubscribeFromAgentUpdates_def)
qed

theorem subscription_messages_witness:
  "map_option sent (socket (subscribeToAgentUpdates (ascii ''a1'') connected)) =
     Some [JObj [(ascii ''event'', JStr (ascii ''subscribe-to-agent'')),
                 (ascii ''data'', JStr (ascii ''a1''))]]
   \<and> map_option sent (socket (unsubscribeFromAgentUpdates (ascii ''a1'') connected)) =
     Some [JObj [(ascii ''event'', JStr (ascii ''unsubscribe-from-agent'')),
                 (ascii ''data'', JStr (ascii ''a1''))]]
   \<and> subscribeToAgentUpdates (ascii ''a1'') initial = initial"
proof -
  have c: "socket connected = Some \<lparr>readyState = OPEN, sent = []\<rparr>
           \<and> readyState \<lparr>readyState = OPEN, sent = []\<rparr> = OPEN"
    by (simp add: connected_def)
  have i: "socket initial = None \<or> (\<exists>ws. socket initial = Some ws \<and> readyState ws \<noteq> OPEN)"
    by (simp add: initial_def)
  from subscription_messages [of connected "\<lparr>readyState = OPEN, sent = []\<rparr>" "ascii ''a1''"] c
    subscription_messages [of initial "\<lparr>readyState = CLOSED, sent = []\<rparr>" "ascii ''a1''"] i
  show ?thesis by simp
qed

text \<open>The unsubscribe message for the agent \<open>a1\<close> on the open connection is not
  \<open>{event: "unsubscribe-to-agent", data: "a1"}\<close>.\<close>

theorem unsubscribe_tag_counterexample:
  "map_option sent (socket (unsubscribeFromAgentUpdates (ascii ''a1'') connected)) \<noteq>
     Some [JObj [(ascii ''event'', JStr (ascii ''unsubscribe-to-agent'')),
                 (ascii ''data'', JStr (ascii ''a1''))]]"
  by (simp add: unsubscribeFromAgentUpdates_def connected_def send_def ascii_eq_iff)

subsection \<open>Status updates\<close>

lemma applyStatusUpdate_length: "length (applyStatusUpdate i st step as) = length as"
  by (simp add: applyStatusUpdate_def)

lemma applyStatusUpdate_nth:
  assumes "n < length as"
  shows "applyStatusUpdate i st step as ! n =
           (if JStr (id' (as ! n)) = i then (as ! n)\<lparr>status := st, currentStep := step\<rparr>
            else as ! n)"
  using assms by (simp add: applyStatusUpdate_def)

lemma applyStatusUpdate_unmatched:
  assumes "\<forall>a \<in> set as. JStr (id' a) \<noteq> i"
  shows "applyStatusUpdate i st step as = as"
  using assms by (simp add: applyStatusUpdate_def map_idI)

lemma property_total:
  assumes "property v k = Inr x"
  shows "\<exists>y. property v k' = Inr y"
  using assms by (cases v) auto

lemma onmessage_status_update:
  assumes "property data (ascii ''event'') = Inr (JStr (ascii ''agent-status-update''))"
      and "property data (ascii ''agentId'') = Inr i"
      and "property data (ascii ''status'') = Inr st"
      and "property data (ascii ''currentStep'') = Inr step"
  shows "agents (onmessage (Inr data) s) = applyStatusUpdate i st step (agents s)"
  using assms by (simp add: onmessage_def ascii_eq_iff)

text \<open>
  Claim C10. When \<open>onmessage\<close> handles an \<open>agent-status-update\<close> event, the agents keep
  their number and their order; every agent keeps all its fields other than \<open>status\<close>
  and \<open>currentStep\<close>; an agent whose id is not the event's \<open>agentId\<close> is unchanged; an
  agent whose id is the event's \<open>agentId\<close> gets the event's \<open>status\<close> and
  \<open>currentStep\<close>; and when no agent has the event's \<open>agentId\<close> the agents are as before.
\<close>

theorem status_update_frame:
  assumes "property data (ascii ''event'') = Inr (JStr (ascii ''agent-status-update''))"
  shows "length (agents (onmessage (Inr data) s)) = length (agents s)
         \<and> (\<forall>n < length (agents s).
               same_but_status (agents s ! n) (agents (onmessage (Inr data) s) ! n)
               \<and> (property data (ascii ''agentId'') \<noteq> Inr (JStr (id' (agents s ! n))) \<longrightarrow>
                    agents (onmessage (Inr data) s) ! n = agents s ! n)
               \<and> (property data (ascii ''agentId'') = Inr (JStr (id' (agents s ! n))) \<longrightarrow>
                    Inr (status (agents (onmessage (Inr data) s) ! n))
                      = property data (ascii ''status'')
                    \<and> Inr (currentStep (agents (onmessage (Inr data) s) ! n))
                      = property data (ascii ''currentStep'')))
         \<and> ((\<forall>a \<in> set (agents s). property data (ascii ''agentId'') \<noteq> Inr (JStr (id' a))) \<longrightarrow>
               agents (onmessage (Inr data) s) = agents s)"
proof -
  from property_total [OF assms]
  obtain i where i: "property data (ascii ''agentId'') = Inr i" by blast
  from property_total [OF assms]
  obtain st where st: "property data (ascii ''status'') = Inr st" by blast
  from property_total [OF assms]
  obtain step where step: "property data (ascii ''currentStep'') = Inr step" by blast
  note eq = onmessage_status_update [OF assms i st step]
  have "length (agents (onmessage (Inr data) s)) = length (agents s)"
    by (simp add: eq applyStatusUpdate_length)
  moreover have "\<forall>n < length (agents s).
      same_but_status (agents s ! n) (agents (onmessage (Inr data) s) ! n)
      \<and> (property data (ascii ''agentId'') \<noteq> Inr (JStr (id' (agents s ! n))) \<longrightarrow>
           agents (onmessage (Inr data) s) ! n = agents s ! n)
      \<and> (property data (ascii ''agentId'') = Inr (JStr (id' (agents s ! n))) \<longrightarrow>
           Inr (status (agents (onmessage (Inr data) s) ! n)) = property data (ascii ''status'')
           \<and> Inr (currentStep (agents (onmessage (Inr data) s) ! n))
             = property data (ascii ''currentStep''))"
    by (auto simp add: eq i st step applyStatusUpdate_nth same_but_status_def)
  moreover have "(\<forall>a \<in> set (agents s). property data (ascii ''agentId'') \<noteq> Inr (JStr (id' a))) \<longrightarrow>
      agents (onmessage (Inr data) s) = agents s"
    by (auto simp add: eq i intro: applyStatusUpdate_unmatched)
  ultimately show ?thesis by blast
qed

text \<open>Of two agents, a status update for the second leaves the first as it is and gives
  the second the new status and step; an update for an unknown agent changes nothing.\<close>

theorem status_update_frame_witness:
  "agents (onmessage (Inr (status_event ''a2'' RUNNING 3))
             (connected\<lparr>agents := [example_agent ''a1'' ''Collect the headlines'' PENDING,
                                   example_agent ''a2'' ''Compare two laptops'' PENDING]\<rparr>))
     = [example_agent ''a1'' ''Collect the headlines'' PENDING,
        (example_agent ''a2'' ''Compare two laptops'' PENDING)
          \<lparr>status := JStr (ascii ''RUNNING''), currentStep := JNum 3\<rparr>]
   \<and> agents (onmessage (Inr (status_event ''a9'' RUNNING 3))
             (connected\<lparr>agents := [example_agent ''a1'' ''Collect the headlines'' PENDING]\<rparr>))
     = [example_agent ''a1'' ''Collect the headlines'' PENDING]"
proof -
  have e: "property (status_event i st step) (ascii ''event'')
             = Inr (JStr (ascii ''agent-status-update''))" for i st step
    by (simp add: status_event_def)
  have u: "\<forall>a \<in> set (agents (connected\<lparr>agents := [example_agent ''a1'' ''Collect the headlines'' PENDING]\<rparr>)).
             property (status_event ''a9'' RUNNING 3) (ascii ''agentId'') \<noteq> Inr (JStr (id' a))"
    by (simp add: status_event_def example_agent_def ascii_eq_iff)
  have first: "agents (onmessage (Inr (status_event ''a2'' RUNNING 3))
             (connected\<lparr>agents := [example_agent ''a1'' ''Collect the headlines'' PENDING,
                                   example_agent ''a2'' ''Compare two laptops'' PENDING]\<rparr>))
     = [example_agent ''a1'' ''Collect the headlines'' PENDING,
        (example_agent ''a2'' ''Compare two laptops'' PENDING)
          \<lparr>status := JStr (ascii ''RUNNING''), currentStep := JNum 3\<rparr>]"
    by (simp add: onmessage_def status_event_def applyStatusUpdate_def example_agent_def
        ascii_eq_iff)
  from status_update_frame [of "status_event ''a9'' RUNNING 3"
      "connected\<lparr>agents := [example_agent ''a1'' ''Collect the headlines'' PENDING]\<rparr>", OF e] u
  have "agents (onmessage (Inr (status_event ''a9'' RUNNING 3))
             (connected\<lparr>agents := [example_agent ''a1'' ''Collect the headlines'' PENDING]\<rparr>))
     = [example_agent ''a1'' ''Collect the headlines'' PENDING]"
    by simp
  with first show ?thesis by blast
qed

subsection \<open>Upserts\<close>

lemma exists_id: "list_ex (\<lambda>agent. id' agent = i) as = (i \<in> set (map id' as))"
  by (force simp add: list_ex_iff)

lemma upsert_ids:
  "map id' (upsert u as) = (if id' u \<in> set (map id' as) then map id' as else id' u # map id' as)"
proof -
  have "map id' (map (\<lambda>agent. if id' agent = id' u then u else agent) as) = map id' as"
    by (induction as) auto
  then show ?thesis
    by (simp add: upsert_def Let_def exists_id)
qed

lemma upsert_distinct: "distinct (map id' as) \<Longrightarrow> distinct (map id' (upsert u as))"
  by (simp add: upsert_ids)

lemma upsert_id_set: "set (map id' (upsert u as)) = insert (id' u) (set (map id' as))"
  by (simp add: upsert_ids insert_absorb)

lemma upsert_member:
  assumes "a \<in> set (upsert u as)"
  shows "if id' a = id' u then a = u else a \<in> set as"
  using assms by (auto simp add: upsert_def Let_def list_ex_iff split: if_splits)

lemma upsert_new: "id' a \<notin> set (map id' as) \<Longrightarrow> upsert a as = a # as"
  by (simp add: upsert_def Let_def exists_id)

lemma upsert_old:
  "id' a \<in> set (map id' as) \<Longrightarrow> upsert a as = map (\<lambda>b. if id' b = id' a then a else b) as"
  by (simp add: upsert_def Let_def exists_id)

text \<open>The updater of \<open>handleAgentAction\<close> is the replacing half of the upsert, and keeps
  the ids when the updated agent has the id that was acted on.\<close>

lemma upsert_listed:
  "id' u \<in> set (map id' as) \<Longrightarrow> upsert u as = replaceAgent (id' u) u as"
  by (simp add: upsert_old replaceAgent_def)

lemma replaceAgent_ids:
  "id' u = i \<Longrightarrow> map id' (replaceAgent i u as) = map id' as"
  by (induction as) (auto simp add: replaceAgent_def)

lemma upserts_snoc: "upserts (us @ [u]) init = upsert u (upserts us init)"
  by (simp add: upserts_def)

lemma latest_snoc: "latest i (us @ [u]) = (if id' u = i then Some u else latest i us)"
  by (simp add: latest_def)

text \<open>
  Claim C9. After any sequence of upserts on agents with at most one entry per id, there
  is at most one entry per id, the ids are those of the initial agents and of the
  upserts, and each entry is the most recent upsert with its id, or the initial entry
  when no upsert had its id.
\<close>

theorem upserts_one_per_id:
  assumes "distinct (map id' init)"
  shows "distinct (map id' (upserts us init))
         \<and> set (map id' (upserts us init)) = set (map id' init) \<union> set (map id' us)
         \<and> (\<forall>a \<in> set (upserts us init).
               case latest (id' a) us of Some u \<Rightarrow> a = u | None \<Rightarrow> a \<in> set init)"
proof (induction us rule: rev_induct)
  case Nil
  from assms show ?case by (simp add: upserts_def latest_def)
next
  case (snoc u us)
  let ?prev = "upserts us init"
  from snoc have d: "distinct (map id' ?prev)"
    and ids: "set (map id' ?prev) = set (map id' init) \<union> set (map id' us)"
    and val: "\<forall>a \<in> set ?prev. case latest (id' a) us of Some u \<Rightarrow> a = u | None \<Rightarrow> a \<in> set init"
    by blast+
  have "distinct (map id' (upserts (us @ [u]) init))"
    using d by (simp add: upserts_snoc upsert_distinct)
  moreover have "set (map id' (upserts (us @ [u]) init))
                   = set (map id' init) \<union> set (map id' (us @ [u]))"
    using ids by (simp only: upserts_snoc upsert_id_set) simp
  moreover have "\<forall>a \<in> set (upserts (us @ [u]) init).
      case latest (id' a) (us @ [u]) of Some u \<Rightarrow> a = u | None \<Rightarrow> a \<in> set init"
  proof
    fix a assume "a \<in> set (upserts (us @ [u]) init)"
    then have m: "a \<in> set (upsert u ?prev)" by (simp add: upserts_snoc)
    show "case latest (id' a) (us @ [u]) of Some u \<Rightarrow> a = u | None \<Rightarrow> a \<in> set init"
    proof (cases "id' a = id' u")
      case True
      with upsert_member [OF m] show ?thesis by (simp add: latest_snoc)
    next
      case False
      with upsert_member [OF m] have "a \<in> set ?prev" by simp
      with val False show ?thesis by (simp add: latest_snoc)
    qed
  qed
  ultimately show ?case by blast
qed

text \<open>With the agents \<open>a1\<close> and \<open>a2\<close>: an upsert of \<open>a2\<close> as running, one of a new
  \<open>a3\<close> and one of \<open>a2\<close> as completed leave \<open>a3\<close>, \<open>a1\<close> and the completed \<open>a2\<close>.\<close>

theorem upserts_one_per_id_witness:
  "distinct (map id' [example_agent ''a1'' ''Collect the headlines'' PENDING,
                      example_agent ''a2'' ''Compare two laptops'' PENDING])
   \<and> distinct (map id'
        (upserts [example_agent ''a2'' ''Compare two laptops'' RUNNING,
                  example_agent ''a3'' ''Summarise an article'' PENDING,
                  example_agent ''a2'' ''Compare two laptops'' COMPLETED]
           [example_agent ''a1'' ''Collect the headlines'' PENDING,
            example_agent ''a2'' ''Compare two laptops'' PENDING]))
   \<and> upserts [example_agent ''a2'' ''Compare two laptops'' RUNNING,
              example_agent ''a3'' ''Summarise an article'' PENDING,
              example_agent ''a2'' ''Compare two laptops'' COMPLETED]
        [example_agent ''a1'' ''Collect the headlines'' PENDING,
         example_agent ''a2'' ''Compare two laptops'' PENDING]
      = [example_agent ''a3'' ''Summarise an article'' PENDING,
         example_agent ''a1'' ''Collect the headlines'' PENDING,
         example_agent ''a2'' ''Compare two laptops'' COMPLETED]"
proof -
  have d: "distinct (map id' [example_agent ''a1'' ''Collect the headlines'' PENDING,
                              example_agent ''a2'' ''Compare two laptops'' PENDING])"
    by (simp add: example_agent_def ascii_eq_iff)
  have v: "upserts [example_agent ''a2'' ''Compare two laptops'' RUNNING,
              example_agent ''a3'' ''Summarise an article'' PENDING,
              example_agent ''a2'' ''Compare two laptops'' COMPLETED]
        [example_agent ''a1'' ''Collect the headlines'' PENDING,
         example_agent ''a2'' ''Compare two laptops'' PENDING]
      = [example_agent ''a3'' ''Summarise an article'' PENDING,
         example_agent ''a1'' ''Collect the headlines'' PENDING,
         example_agent ''a2'' ''Compare two laptops'' COMPLETED]"
    by (simp add: upserts_def upsert_def example_agent_def ascii_eq_iff)
  from d v upserts_one_per_id [OF d,
      of "[example_agent ''a2'' ''Compare two laptops'' RUNNING,
           example_agent ''a3'' ''Summarise an article'' PENDING,
           example_agent ''a2'' ''Compare two laptops'' COMPLETED]"]
  show ?thesis by blast
qed

subsection \<open>Creating an agent\<close>

lemma subscribe_agents: "agents (subscribeToAgentUpdates i s) = agents s"
  by (simp add: subscribeToAgentUpdates_def split: option.split sum.split)

lemma subscribe_api_calls: "api_calls (subscribeToAgentUpdates i s) = api_calls s"
  by (simp add: subscribeToAgentUpdates_def split: option.split sum.split)

lemma handleCreateAgent_calls:
  "api_calls (snd (handleCreateAgent api newAgent s)) =
     api_calls s @ [CreateAgent \<lparr>instruction = instruction newAgent, model = model newAgent,
                    maxSteps = maxSteps newAgent, headless = headless newAgent,
                    useVision = useVision newAgent, generateGif = generateGif newAgent,
                    browserSize = browserSize newAgent\<rparr>]"
  by (simp add: handleCreateAgent_def Let_def subscribe_api_calls split: sum.split)

lemma handleCreateAgent_agents:
  assumes "createAgent api \<lparr>instruction = instruction newAgent, model = model newAgent,
                    maxSteps = maxSteps newAgent, headless = headless newAgent,
                    useVision = useVision newAgent, generateGif = generateGif newAgent,
                    browserSize = browserSize newAgent\<rparr> = Inr a"
  shows "agents (snd (handleCreateAgent api newAgent s)) = upsert a (agents s)"
  using assms by (simp add: handleCreateAgent_def Let_def subscribe_agents)

lemma example_instruction_length:
  "length (trim (instruction example_form)) = 57"
  by (simp add: example_form_def trim_def isWhiteSpace_def ascii_def)

text \<open>
  Claim C8, amended. Submitting the creation form with an instruction whose trimmed
  length is below 10 changes nothing: no call is made to the API service. With a longer
  instruction, one \<open>createAgent\<close> call is made with the form's configuration, and when it
  settles to an agent, that agent is put first in the agents if none of them has its id,
  and otherwise replaces, in place, the agents that have its id.
\<close>

theorem create_agent_form:
  "(length (trim (instruction form)) < 10 \<longrightarrow>
      submitCreateAgentForm api uuid now (form, s) = (form, s))
   \<and> (10 \<le> length (trim (instruction form)) \<longrightarrow>
      api_calls (snd (submitCreateAgentForm api uuid now (form, s)))
        = api_calls s @ [CreateAgent (form_config form)]
      \<and> (\<forall>a. createAgent api (form_config form) = Inr a \<longrightarrow>
            (id' a \<notin> set (map id' (agents s)) \<longrightarrow>
               agents (snd (submitCreateAgentForm api uuid now (form, s))) = a # agents s)
            \<and> (id' a \<in> set (map id' (agents s)) \<longrightarrow>
               agents (snd (submitCreateAgentForm api uuid now (form, s)))
                 = map (\<lambda>b. if id' b = id' a then a else b) (agents s))))"
  by (auto simp add: submitCreateAgentForm_def handleSubmit_def Let_def form_config_def
      handleCreateAgent_calls handleCreateAgent_agents upsert_new upsert_old)

text \<open>The example instruction has 57 characters: the call is made and the created agent
  \<open>a7\<close> is put first, before \<open>a1\<close>. An instruction of five characters between spaces
  is rejected.\<close>

theorem create_agent_form_witness:
  "api_calls (snd (submitCreateAgentForm
       (creating (example_agent ''a7'' ''Search GitHub for trending Rust repos'' PENDING))
       (ascii ''4f0c'') (ascii ''2025-03-01 10:00:00'')
       (example_form, connected\<lparr>agents := [example_agent ''a1'' ''Collect the headlines'' PENDING]\<rparr>)))
     = [CreateAgent (form_config example_form)]
   \<and> agents (snd (submitCreateAgentForm
       (creating (example_agent ''a7'' ''Search GitHub for trending Rust repos'' PENDING))
       (ascii ''4f0c'') (ascii ''2025-03-01 10:00:00'')
       (example_form, connected\<lparr>agents := [example_agent ''a1'' ''Collect the headlines'' PENDING]\<rparr>)))
     = [example_agent ''a7'' ''Search GitHub for trending Rust repos'' PENDING,
        example_agent ''a1'' ''Collect the headlines'' PENDING]
   \<and> submitCreateAgentForm
       (creating (example_agent ''a7'' ''Search GitHub for trending Rust repos'' PENDING))
       (ascii ''4f0c'') (ascii ''2025-03-01 10:00:00'')
       (example_form\<lparr>instruction := ascii ''  Hello   ''\<rparr>, connected)
     = (example_form\<lparr>instruction := ascii ''  Hello   ''\<rparr>, connected)"
proof -
  let ?a7 = "example_agent ''a7'' ''Search GitHub for trending Rust repos'' PENDING"
  let ?s = "connected\<lparr>agents := [example_agent ''a1'' ''Collect the headlines'' PENDING]\<rparr>"
  have long: "10 \<le> length (trim (instruction example_form))"
    by (simp add: example_instruction_length)
  have short: "length (trim (instruction (example_form\<lparr>instruction := ascii ''  Hello   ''\<rparr>))) < 10"
    by (simp add: trim_def isWhiteSpace_def ascii_def)
  have c: "createAgent (creating ?a7) (form_config example_form) = Inr ?a7"
    by (simp add: creating_def)
  have new: "id' ?a7 \<notin> set (map id' (agents ?s))"
    by (simp add: example_agent_def ascii_eq_iff)
  have calls: "api_calls ?s = []"
    by (simp add: connected_def initial_def)
  from create_agent_form [of example_form "creating ?a7" "ascii ''4f0c''"
      "ascii ''2025-03-01 10:00:00''" ?s] long c new calls
    create_agent_form [of "example_form\<lparr>instruction := ascii ''  Hello   ''\<rparr>" "creating ?a7"
      "ascii ''4f0c''" "ascii ''2025-03-01 10:00:00''" connected] short
  show ?thesis by simp
qed

text \<open>With the agents \<open>a1\<close> and \<open>a2\<close> in the view and a backend that returns an agent
  with the id \<open>a2\<close>, the returned agent is not the first of the agents after the
  submission of the example instruction.\<close>

theorem create_agent_form_counterexample:
  "hd (agents (snd (submitCreateAgentForm
       (creating (example_agent ''a2'' ''Search GitHub for trending Rust repos'' PENDING))
       (ascii ''4f0c'') (ascii ''2025-03-01 10:00:00'')
       (example_form, connected\<lparr>agents := [example_agent ''a1'' ''Collect the headlines'' PENDING,
                                             example_agent ''a2'' ''Compare two laptops'' RUNNING]\<rparr>))))
     \<noteq> example_agent ''a2'' ''Search GitHub for trending Rust repos'' PENDING"
proof -
  let ?a2 = "example_agent ''a2'' ''Search GitHub for trending Rust repos'' PENDING"
  let ?s = "connected\<lparr>agents := [example_agent ''a1'' ''Collect the headlines'' PENDING,
                                  example_agent ''a2'' ''Compare two laptops'' RUNNING]\<rparr>"
  have "agents (snd (submitCreateAgentForm (creating ?a2) (ascii ''4f0c'')
                       (ascii ''2025-03-01 10:00:00'') (example_form, ?s)))
          = upsert ?a2 (agents ?s)"
    by (simp add: submitCreateAgentForm_def handleSubmit_def Let_def example_instruction_length
        handleCreateAgent_agents creating_def)
  also have "\<dots> = [example_agent ''a1'' ''Collect the headlines'' PENDING, ?a2]"
    by (simp add: upsert_def example_agent_def ascii_eq_iff)
  finally show ?thesis
    by (simp add: example_agent_def ascii_eq_iff)
qed

subsection \<open>Requests\<close>

lemma property_truthy:
  assumes "truthy v"
  shows "\<exists>x. property v k = Inr x"
  using assms by (cases v) auto

lemma request_rejected:
  assumes "\<And>req. fetch req = Rejected e"
  shows "request api fetch endpoint options = Inl e"
  by (simp add: request_def assms)

lemma request_answer:
  "request api (\<lambda>req. Responded r) endpoint options =
     and_then
       (case resp_json r of
          Inr data \<Rightarrow> Inr data
        | Inl parseError \<Rightarrow>
            and_then (resp_text r)
              (\<lambda>t. Inr (JObj [(ascii ''status'',
                                JStr (if ok r then ascii ''success'' else ascii ''error'')),
                               (ascii ''data'', JObj [(ascii ''rawText'', JStr t)]),
                               (ascii ''message'', JStr t)])))
       (\<lambda>data.
          if \<not> ok r then
            and_then (property data (ascii ''message''))
              (\<lambda>m. Inl (Error (or_else m
                 (JStr (ascii ''An error occurred while making the request'')))))
          else Inr data)"
  by (simp add: request_def)

text \<open>A response that is not OK makes \<open>request\<close> throw, whatever its body is.\<close>

lemma request_not_ok:
  assumes "\<not> ok r"
  shows "\<exists>e. request api (\<lambda>req. Responded r) endpoint options = Inl e"
  using assms
  by (auto simp add: request_answer and_then_def split: sum.split)

text \<open>The error that \<open>request\<close> throws for a response that is not OK does not depend
  on the HTTP status.\<close>

lemma request_error_without_status:
  assumes "\<not> ok (Response st j t)" and "\<not> ok (Response st' j t)"
  shows "request api (\<lambda>req. Responded (Response st j t)) endpoint options
         = request api (\<lambda>req. Responded (Response st' j t)) endpoint options"
  using assms by (simp add: request_answer split: sum.split)

text \<open>An OK response with a JSON body is returned as it is, whatever the \<open>status\<close> of
  its envelope says.\<close>

lemma request_ok:
  assumes "ok r" and "resp_json r = Inr data"
  shows "request api (\<lambda>req. Responded r) endpoint options = Inr data"
  using assms by (simp add: request_answer)

subsection \<open>Listing agents\<close>

lemma empty_agents_empty: "empty_result (empty_agents params)"
  by (simp add: empty_result_def empty_agents_def ascii_eq_iff)

lemma getAgents_try_result:
  assumes "queryParams params = Inr qp"
      and "getAgents_try api fetch params (if qp \<noteq> [] then ascii ''?'' @ qp else []) = Inr result"
  shows "getAgents api fetch params = Inr result"
  using assms by (simp add: getAgents_def Let_def)

lemma getAgents_try_throws:
  assumes "queryParams params = Inr qp"
      and "getAgents_try api fetch params (if qp \<noteq> [] then ascii ''?'' @ qp else []) = Inl e"
  shows "getAgents api fetch params = Inr (empty_agents params)"
  using assms by (simp add: getAgents_def Let_def)

lemma getAgents_try_request_throws:
  assumes "request api fetch (ascii ''/agents'' @ query) no_options = Inl e"
  shows "getAgents_try api fetch params query = Inl e"
  using assms by (simp add: getAgents_try_def)

lemma getAgents_try_raw_text:
  assumes "request api fetch (ascii ''/agents'' @ query) no_options =
             Inr (JObj [(ascii ''status'', st), (ascii ''data'', JObj [(ascii ''rawText'', JStr t)]),
                        (ascii ''message'', JStr t)])"
  shows "\<exists>result. getAgents_try api fetch params query = Inr result \<and> empty_result result"
  by (simp add: getAgents_try_def assms ascii_eq_iff or_else_def empty_result_def)

text \<open>Once the query string is built, \<open>getAgents\<close> returns a result.\<close>

lemma getAgents_returns:
  assumes "queryParams params = Inr qp"
  shows "\<exists>result. getAgents api fetch params = Inr result"
  using assms by (simp add: getAgents_def Let_def split: sum.split)

text \<open>No connection: the empty result.\<close>

lemma getAgents_network_failure:
  assumes "queryParams params = Inr qp" and "\<And>req. fetch req = Rejected e"
  shows "getAgents api fetch params = Inr (empty_agents params)"
  by (rule getAgents_try_throws [OF assms(1)])
     (rule getAgents_try_request_throws, rule request_rejected, rule assms(2))

text \<open>A response that is not OK: the empty result.\<close>

lemma getAgents_error_response:
  assumes "queryParams params = Inr qp" and "\<not> ok r"
  shows "getAgents api (\<lambda>req. Responded r) params = Inr (empty_agents params)"
proof -
  from request_not_ok [OF assms(2)]
  obtain e where "request api (\<lambda>req. Responded r)
      (ascii ''/agents'' @ (if qp \<noteq> [] then ascii ''?'' @ qp else [])) no_options = Inl e"
    by blast
  from getAgents_try_throws [OF assms(1) getAgents_try_request_throws [OF this]]
  show ?thesis .
qed

text \<open>A body that is not JSON: an empty result, whether the text of the body can still
  be read or not.\<close>

lemma getAgents_unparsable:
  assumes q: "queryParams params = Inr qp" and j: "resp_json r = Inl e"
  shows "\<exists>result. getAgents api (\<lambda>req. Responded r) params = Inr result \<and> empty_result result"
proof -
  let ?query = "if qp \<noteq> [] then ascii ''?'' @ qp else []"
  let ?req = "request api (\<lambda>req. Responded r) (ascii ''/agents'' @ ?query) no_options"
  show ?thesis
  proof (cases "resp_text r")
    case (Inl e')
    then have "?req = Inl e'" by (simp add: request_answer j)
    from getAgents_try_throws [OF q getAgents_try_request_throws [OF this]] empty_agents_empty
    show ?thesis by simp
  next
    case (Inr t)
    show ?thesis
    proof (cases "ok r")
      case True
      with Inr have "?req = Inr (JObj [(ascii ''status'', JStr (ascii ''success'')),
                                       (ascii ''data'', JObj [(ascii ''rawText'', JStr t)]),
                                       (ascii ''message'', JStr t)])"
        by (simp add: request_answer j)
      from getAgents_try_raw_text [OF this, of params]
      obtain result where "getAgents_try api (\<lambda>req. Responded r) params ?query = Inr result"
        and "empty_result result" by blast
      with getAgents_try_result [OF q] show ?thesis by blast
    next
      case False
      from getAgents_error_response [OF q False] empty_agents_empty
      show ?thesis by simp
    qed
  qed
qed

text \<open>A JSON body without \<open>data\<close>: the empty result.\<close>

lemma getAgents_no_data:
  assumes q: "queryParams params = Inr qp" and j: "resp_json r = Inr payload"
      and d: "property payload (ascii ''data'') = Inl e
              \<or> (\<exists>d. property payload (ascii ''data'') = Inr d \<and> \<not> truthy d)"
  shows "getAgents api (\<lambda>req. Responded r) params = Inr (empty_agents params)"
proof (cases "ok r")
  case False
  from getAgents_error_response [OF q False] show ?thesis .
next
  case True
  let ?query = "if qp \<noteq> [] then ascii ''?'' @ qp else []"
  have r: "request api (\<lambda>req. Responded r) (ascii ''/agents'' @ ?query) no_options = Inr payload"
    by (rule request_ok [OF True j])
  from d show ?thesis
  proof
    assume "property payload (ascii ''data'') = Inl e"
    then have "getAgents_try api (\<lambda>req. Responded r) params ?query = Inl e"
      by (simp add: getAgents_try_def r)
    from getAgents_try_throws [OF q this] show ?thesis .
  next
    assume "\<exists>d. property payload (ascii ''data'') = Inr d \<and> \<not> truthy d"
    then have "getAgents_try api (\<lambda>req. Responded r) params ?query = Inr (empty_agents params)"
      by (auto simp add: getAgents_try_def r)
    from getAgents_try_result [OF q this] show ?thesis .
  qed
qed

lemma encodeURIComponent_lone_surrogate: "encodeURIComponent [0xD800] = Inl URIError"
  by (simp add: leadSurrogate_def uriUnreserved_def ascii_def)

lemma queryParams_lone_surrogate: "queryParams (Some [Sort (Some [0xD800])]) = Inl URIError"
  by (simp add: queryParams_def defined_entries_def encodeURIComponent_lone_surrogate
      del: encodeURIComponent.simps)

text \<open>
  Claim C2 fails for one kind of filter: \<open>getAgents\<close> builds the query string before its
  \<open>try\<close> block, \<open>encodeURIComponent\<close> throws a URIError for a \<open>sort\<close> key with an
  unpaired surrogate, and \<open>getAgents\<close> then throws instead of returning the empty
  result, whatever the network does. (For every other filter the claim holds:
  \<open>getAgents_returns\<close>, \<open>getAgents_network_failure\<close>, \<open>getAgents_error_response\<close>,
  \<open>getAgents_unparsable\<close>, \<open>getAgents_no_data\<close>.)
\<close>

theorem getAgents_throws:
  "getAgents api fetch (Some [Sort (Some [0xD800])]) = Inl URIError"
proof -
  have "queryParams (Some [Sort (Some [0xD800])]) = Inl URIError"
    by (rule queryParams_lone_surrogate)
  then show ?thesis
    by (simp add: getAgents_def)
qed

lemma or_else_truthy: "truthy w \<Longrightarrow> truthy (or_else v w)"
  by (simp add: or_else_def)

text \<open>What the \<open>try\<close> block returns for a response with data: the list of agents is
  what the data has under \<open>agents\<close>, else what it has under \<open>items\<close>, else empty.\<close>

lemma getAgents_try_data:
  assumes r: "request api fetch (ascii ''/agents'' @ query) no_options = Inr payload"
      and d: "property payload (ascii ''data'') = Inr d"
      and t: "truthy d"
      and a: "property d (ascii ''agents'') = Inr a"
      and i: "property d (ascii ''items'') = Inr i"
  shows "\<exists>total' limit' offset'.
           getAgents_try api fetch params query =
             Inr (JObj [(ascii ''agents'', or_else (or_else a i) (JArr [])),
                        (ascii ''total'', total'),
                        (ascii ''limit'', limit'),
                        (ascii ''offset'', offset')])"
proof -
  from property_truthy [OF t]
  obtain total where total: "property d (ascii ''total'') = Inr total" by blast
  from property_truthy [OF t]
  obtain limit where limit: "property d (ascii ''limit'') = Inr limit" by blast
  from property_truthy [OF t]
  obtain offset where offset: "property d (ascii ''offset'') = Inr offset" by blast
  have "truthy (or_else (or_else a i) (JArr []))"
    by (rule or_else_truthy) simp
  from property_truthy [OF this]
  obtain len where len: "property (or_else (or_else a i) (JArr [])) (ascii ''length'') = Inr len"
    by blast
  show ?thesis
    by (simp add: getAgents_try_def r d t a i total limit offset len Let_def)
qed

text \<open>
  Claim C7. For a filter whose query string can be built and every OK response whose
  JSON body has a \<open>data\<close> object without \<open>agents\<close> and with the array \<open>xs\<close> under
  \<open>items\<close>, \<open>getAgents\<close> returns a result that has \<open>xs\<close> under \<open>agents\<close>.
\<close>

theorem getAgents_items:
  assumes "queryParams params = Inr qp"
      and "ok r"
      and "resp_json r = Inr payload"
      and "property payload (ascii ''data'') = Inr (JObj kvs)"
      and "map_of kvs (ascii ''agents'') = None"
      and "map_of kvs (ascii ''items'') = Some (JArr xs)"
  shows "\<exists>result. getAgents api (\<lambda>req. Responded r) params = Inr result
                  \<and> property result (ascii ''agents'') = Inr (JArr xs)"
proof -
  let ?query = "if qp \<noteq> [] then ascii ''?'' @ qp else []"
  have r: "request api (\<lambda>req. Responded r) (ascii ''/agents'' @ ?query) no_options = Inr payload"
    by (rule request_ok [OF assms(2,3)])
  have a: "property (JObj kvs) (ascii ''agents'') = Inr JUndefined"
    by (simp add: assms(5))
  have i: "property (JObj kvs) (ascii ''items'') = Inr (JArr xs)"
    by (simp add: assms(6))
  have l: "or_else (or_else JUndefined (JArr xs)) (JArr []) = JArr xs"
    by (simp add: or_else_def)
  from getAgents_try_data [OF r assms(4) _ a i, of params]
  obtain total' limit' offset' where
    "getAgents_try api (\<lambda>req. Responded r) params ?query =
       Inr (JObj [(ascii ''agents'', JArr xs), (ascii ''total'', total'),
                  (ascii ''limit'', limit'), (ascii ''offset'', offset')])"
    by (auto simp add: l)
  from getAgents_try_result [OF assms(1) this] show ?thesis
    by simp
qed

text \<open>An OK response with two agents under \<open>items\<close>, to a request without filter.\<close>

theorem getAgents_items_witness:
  "\<exists>result. getAgents default_service
       (answering 200 (envelope ''success'' ''''
          (JObj [(ascii ''items'', JArr [JStr (ascii ''first''), JStr (ascii ''second'')]),
                 (ascii ''total'', JNum 2)]))) None = Inr result
     \<and> property result (ascii ''agents'') = Inr (JArr [JStr (ascii ''first''), JStr (ascii ''second'')])"
proof -
  let ?d = "[(ascii ''items'', JArr [JStr (ascii ''first''), JStr (ascii ''second'')]),
            (ascii ''total'', JNum 2)]"
  let ?r = "Response 200 (Inr (envelope ''success'' '''' (JObj ?d))) (Inl TypeError)"
  have q: "queryParams None = Inr []" by (simp add: queryParams_def)
  have o: "ok ?r" by (simp add: ok_def)
  have j: "resp_json ?r = Inr (envelope ''success'' '''' (JObj ?d))" by simp
  have p: "property (envelope ''success'' '''' (JObj ?d)) (ascii ''data'') = Inr (JObj ?d)"
    by (simp add: envelope_def ascii_eq_iff)
  have a: "map_of ?d (ascii ''agents'') = None" by (simp add: ascii_eq_iff)
  have i: "map_of ?d (ascii ''items'') = Some (JArr [JStr (ascii ''first''), JStr (ascii ''second'')])"
    by (simp add: ascii_eq_iff)
  from getAgents_items [OF q o j p a i, of default_service]
  show ?thesis by (simp add: answering_def)
qed

subsection \<open>Results and single agents\<close>

lemma not_found_not_ok: "resp_status r = 404 \<Longrightarrow> \<not> ok r"
  by (simp add: ok_def)

text \<open>On a response that is not OK, with the status 404 or any other, the lookups of the
  API service throw.\<close>

lemma getAgentResults_not_ok:
  assumes "\<not> ok r"
  shows "\<exists>e. getAgentResults api (\<lambda>req. Responded r) agentId = Inl e"
proof -
  from request_not_ok [OF assms]
  obtain e where "request api (\<lambda>req. Responded r)
                    (ascii ''/agents/'' @ agentId @ ascii ''/results'') no_options = Inl e"
    by blast
  then show ?thesis by (simp add: getAgentResults_def)
qed

lemma getAgentById_not_ok:
  assumes "\<not> ok r"
  shows "\<exists>e. getAgentById api (\<lambda>req. Responded r) agentId = Inl e"
proof -
  from request_not_ok [OF assms]
  obtain e where "request api (\<lambda>req. Responded r) (ascii ''/agents/'' @ agentId) no_options = Inl e"
    by blast
  then show ?thesis by (simp add: getAgentById_def)
qed

text \<open>The details view takes the status 404 for the absence of results: the results
  become \<open>null\<close> and no error is shown.\<close>

lemma fetchResults_not_found:
  assumes "resp_status r = 404" and "u \<noteq> []"
  shows "fetchResults (\<lambda>req. Responded r) (Some u) agentId s
         = s\<lparr>agentResults := JNull, isLoadingResults := False\<rparr>"
  using assms
  by (simp add: fetchResults_def fetchResults_try_def Let_def not_found_not_ok)

lemma answering_not_ok:
  assumes "\<not> (200 \<le> st \<and> st \<le> 299)" and "message \<noteq> []"
  shows "request api (answering st (error_envelope message)) endpoint options
         = Inl (Error (JStr (ascii message)))"
  using assms
  by (simp add: answering_def request_answer ok_def error_envelope_def ascii_eq_iff or_else_def
      ascii_def)

text \<open>
  Claim C3 fails on the API service: for a response with the status 404,
  \<open>getAgentResults\<close> throws the error of the envelope, as \<open>getAgentById\<close> does. The
  details view, which fetches the results itself, is where the status 404 gives the
  \<open>null\<close> result and no error.
\<close>

theorem getAgentResults_not_found:
  "getAgentResults default_service (answering 404 (error_envelope ''No results for this agent''))
     (ascii ''a1'') = Inl (Error (JStr (ascii ''No results for this agent'')))
   \<and> getAgentById default_service (answering 404 (error_envelope ''Agent not found''))
     (ascii ''a1'') = Inl (Error (JStr (ascii ''Agent not found'')))
   \<and> fetchResults (answering 404 (error_envelope ''No results for this agent''))
       (Some DEFAULT_API_URL) (ascii ''a1'') no_details
     = no_details\<lparr>agentResults := JNull\<rparr>"
proof -
  have u: "DEFAULT_API_URL \<noteq> []"
    by (simp add: DEFAULT_API_URL_def ascii_def)
  have "fetchResults (answering 404 (error_envelope ''No results for this agent''))
          (Some DEFAULT_API_URL) (ascii ''a1'') no_details
        = no_details\<lparr>agentResults := JNull, isLoadingResults := False\<rparr>"
    unfolding answering_def by (rule fetchResults_not_found [OF _ u]) simp
  then show ?thesis
    by (simp add: getAgentResults_def getAgentById_def answering_not_ok no_details_def)
qed

subsection \<open>Actions on an agent\<close>

text \<open>On an OK response the four actions return \<open>data.agent\<close> of the body, whatever the
  \<open>status\<close> of the envelope is.\<close>

lemma actions_ok:
  assumes "ok r" and "resp_json r = Inr payload"
  shows "startAgent api (\<lambda>req. Responded r) agentId = data_field (ascii ''agent'') payload"
    and "stopAgent api (\<lambda>req. Responded r) agentId = data_field (ascii ''agent'') payload"
    and "pauseAgent api (\<lambda>req. Responded r) agentId = data_field (ascii ''agent'') payload"
    and "resumeAgent api (\<lambda>req. Responded r) agentId = data_field (ascii ''agent'') payload"
  by (simp_all add: startAgent_def stopAgent_def pauseAgent_def resumeAgent_def
      request_ok [OF assms])

lemma data_field_envelope:
  "data_field (ascii ''agent'') (envelope st message (JObj [(ascii ''agent'', a)])) = Inr a"
  by (simp add: data_field_def envelope_def ascii_eq_iff)

lemma ascii_append: "ascii (s @ t) = ascii s @ ascii t"
  by (simp add: ascii_def)

lemma decimal_500: "decimal 500 = ascii ''500''"
  by (simp add: digit_def ascii_def)

text \<open>
  Claim C6 fails on the API service. On an OK response whose envelope has the status
  \<open>error\<close>, each of the four actions returns the agent of the body instead of failing.
  On a response that is not OK they fail with the message of the envelope: the error is
  the same for the statuses 500 and 503 and does not carry the status. The agent list,
  which posts the action itself, fails in the first case and puts the HTTP status into
  the message of its error in the second.
\<close>

theorem agent_actions_unchecked:
  "startAgent default_service
     (answering 200 (envelope ''error'' ''Agent is already running''
        (JObj [(ascii ''agent'', agent_json ''a1'' RUNNING)]))) (ascii ''a1'')
     = Inr (agent_json ''a1'' RUNNING)
   \<and> stopAgent default_service
     (answering 200 (envelope ''error'' ''Agent is already running''
        (JObj [(ascii ''agent'', agent_json ''a1'' RUNNING)]))) (ascii ''a1'')
     = Inr (agent_json ''a1'' RUNNING)
   \<and> pauseAgent default_service
     (answering 200 (envelope ''error'' ''Agent is already running''
        (JObj [(ascii ''agent'', agent_json ''a1'' RUNNING)]))) (ascii ''a1'')
     = Inr (agent_json ''a1'' RUNNING)
   \<and> resumeAgent default_service
     (answering 200 (envelope ''error'' ''Agent is already running''
        (JObj [(ascii ''agent'', agent_json ''a1'' RUNNING)]))) (ascii ''a1'')
     = Inr (agent_json ''a1'' RUNNING)
   \<and> startAgent default_service (answering 500 (error_envelope ''Internal error'')) (ascii ''a1'')
     = Inl (Error (JStr (ascii ''Internal error'')))
   \<and> startAgent default_service (answering 503 (error_envelope ''Internal error'')) (ascii ''a1'')
     = Inl (Error (JStr (ascii ''Internal error'')))
   \<and> AgentList_handleAgentAction_try
       (answering 200 (envelope ''error'' ''Agent is already running''
          (JObj [(ascii ''agent'', agent_json ''a1'' RUNNING)])))
       (Some DEFAULT_API_URL) (ascii ''a1'') start
     = Inl (Error (JStr (ascii ''Agent is already running'')))
   \<and> AgentList_handleAgentAction_try (answering 500 (error_envelope ''Internal error''))
       (Some DEFAULT_API_URL) (ascii ''a1'') start
     = Inl (Error (JStr (ascii ''Failed to start agent. Server responded with 500'')))"
proof -
  let ?r = "Response 200 (Inr (envelope ''error'' ''Agent is already running''
              (JObj [(ascii ''agent'', agent_json ''a1'' RUNNING)]))) (Inl TypeError)"
  have o: "ok ?r" by (simp add: ok_def)
  have j: "resp_json ?r = Inr (envelope ''error'' ''Agent is already running''
              (JObj [(ascii ''agent'', agent_json ''a1'' RUNNING)]))" by simp
  note ok_actions = actions_ok [OF o j, of default_service "ascii ''a1''", unfolded data_field_envelope]
  have u: "DEFAULT_API_URL \<noteq> []"
    by (simp add: DEFAULT_API_URL_def ascii_def)
  have l1: "AgentList_handleAgentAction_try
       (answering 200 (envelope ''error'' ''Agent is already running''
          (JObj [(ascii ''agent'', agent_json ''a1'' RUNNING)])))
       (Some DEFAULT_API_URL) (ascii ''a1'') start
     = Inl (Error (JStr (ascii ''Agent is already running'')))"
    by (simp add: AgentList_handleAgentAction_try_def u answering_def ok_def envelope_def
        ascii_eq_iff or_else_def) (simp add: ascii_def)
  have m: "ascii ''Failed to '' @ Action_value start @ ascii '' agent. Server responded with ''
             @ decimal 500 = ascii ''Failed to start agent. Server responded with 500''"
    by (simp add: decimal_500 ascii_append [symmetric] del: decimal.simps)
  have l2: "AgentList_handleAgentAction_try (answering 500 (error_envelope ''Internal error''))
       (Some DEFAULT_API_URL) (ascii ''a1'') start
     = Inl (Error (JStr (ascii ''Failed to start agent. Server responded with 500'')))"
    by (simp add: AgentList_handleAgentAction_try_def u answering_def ok_def m
        del: decimal.simps Action_value.simps)
  from ok_actions l1 l2 show ?thesis
    by (simp add: answering_def [symmetric] startAgent_def answering_not_ok)
qed

end
